theory Spec2Isabelle
  imports Complex_Main
begin

section \<open>Python values and exceptions\<close>

text \<open>
  The script \<^verbatim>\<open>examples/summarization/run_summarization.py\<close> is embedded function by
  function. An exception of the source is a value \<open>Inl e\<close> of a sum type; a normal return
  is \<open>Inr v\<close>. A floating-point number is idealised as the real number it stands for:
  rounding is left out, the bound of the float range and the exceptions it causes are
  kept.
\<close>

datatype error =
    AttributeError string
  | KeyError string
  | ZeroDivisionError string
  | TypeError string
  | ValueError string
  | IndexError string
  | OverflowError string

text \<open>Sequencing of fallible steps: the first exception ends the computation.\<close>

definition bind :: "error + 'a \<Rightarrow> ('a \<Rightarrow> error + 'b) \<Rightarrow> error + 'b" where
  "bind m f = (case m of Inl e \<Rightarrow> Inl e | Inr v \<Rightarrow> f v)"

text \<open>A dictionary subscript \<^verbatim>\<open>d[k]\<close>: a missing key raises \<^verbatim>\<open>KeyError\<close>.\<close>

definition subscript :: "(string \<rightharpoonup> 'v) \<Rightarrow> string \<Rightarrow> error + 'v" where
  "subscript d k = (case d k of None \<Rightarrow> Inl (KeyError k) | Some v \<Rightarrow> Inr v)"

text \<open>The largest finite float, \<open>(2^53 - 1) * 2^971\<close> (about \<open>1.8e308\<close>).\<close>

definition float_max :: real where
  "float_max = (2 ^ 53 - 1) * 2 ^ 971"

text \<open>
  A number of the source is a finite Python \<^verbatim>\<open>int\<close> or \<^verbatim>\<open>float\<close>. An operation on
  floats first converts an integer operand to a float; an integer beyond the float range
  raises \<^verbatim>\<open>OverflowError\<close> there. A float operand is within the range already.
\<close>

definition to_float :: "real \<Rightarrow> error + real" where
  "to_float x =
     (if float_max < \<bar>x\<bar> then Inl (OverflowError ''int too large to convert to float'')
      else Inr x)"

text \<open>
  The result of a float power: a float, or a complex number (Python 3 returns one for a
  negative base and a fractional exponent; only that it is complex matters below).
\<close>

datatype pynum = PyFloat real | PyComplex

text \<open>
  \<^verbatim>\<open>b ** e\<close> for the two exponents the source uses, \<open>-0.5\<close> and \<open>-1.5\<close> (negative
  and fractional): the base is converted to a float, base zero raises, a negative base
  gives a complex number, and a power beyond the float range raises
  \<^verbatim>\<open>OverflowError\<close> (with \<^verbatim>\<open>errno\<close> 34 and the message below). A power too small
  for a float is rounded silently, which the reals leave out.
\<close>

definition py_pow :: "real \<Rightarrow> real \<Rightarrow> error + pynum" where
  "py_pow b0 e =
     bind (to_float b0) (\<lambda>b.
       if b = 0 then Inl (ZeroDivisionError ''0.0 cannot be raised to a negative power'')
       else if b < 0 then Inr PyComplex
       else if float_max < b powr e then Inl (OverflowError ''Numerical result out of range'')
       else Inr (PyFloat (b powr e)))"

text \<open>
  The result of a product with a float or complex factor: a finite float, \<^verbatim>\<open>inf\<close> (a
  float product beyond the float range raises nothing), or a complex number.
\<close>

datatype pyprod = Finite real | Infinite | ComplexProduct

text \<open>
  \<^verbatim>\<open>n * x\<close> for the counter \<open>n\<close>, which is not negative and which the power before has
  already converted to a float, and a power \<open>x\<close>, which is positive when it is a float.
\<close>

fun py_mul :: "real \<Rightarrow> pynum \<Rightarrow> pyprod" where
  "py_mul n (PyFloat x) = (if float_max < n * x then Infinite else Finite (n * x))"
| "py_mul n PyComplex = ComplexProduct"

text \<open>
  \<^verbatim>\<open>min(a, b)\<close> of a power and a product keeps \<open>a\<close> unless \<open>b < a\<close>; comparing with a
  complex number raises \<^verbatim>\<open>TypeError\<close>.
\<close>

fun py_min :: "pynum \<Rightarrow> pyprod \<Rightarrow> error + real" where
  "py_min (PyFloat a) (Finite b) = Inr (if b < a then b else a)"
| "py_min (PyFloat a) Infinite = Inr a"
| "py_min _ _ = Inl (TypeError ''< not supported between instances of complex and float'')"

section \<open>BertSumOptimizer\<close>

text \<open>
  A torch \<^verbatim>\<open>Adam\<close> optimizer, as far as this script reads and writes it: the learning
  rate of its parameter groups and the number of \<^verbatim>\<open>step()\<close> calls it has received.
  The numerical parameter update is torch's own.
\<close>

record adam =
  param_group_lr :: real
  n_updates :: nat

definition Adam :: "real \<Rightarrow> adam" where
  "Adam r = \<lparr>param_group_lr = r, n_updates = 0\<rparr>"

definition adam_step :: "adam \<Rightarrow> adam" where
  "adam_step a = a\<lparr>n_updates := Suc (n_updates a)\<rparr>"

text \<open>
  A sub-module of the model (\<^verbatim>\<open>model.encoder\<close>, \<^verbatim>\<open>model.decoder\<close>): the accumulated
  gradients of its parameters.
\<close>

record module =
  grad :: "real list"

definition module_zero_grad :: "module \<Rightarrow> module" where
  "module_zero_grad m = m\<lparr>grad := map (\<lambda>_. 0) (grad m)\<rparr>"

record model =
  model_encoder :: module
  model_decoder :: module

text \<open>
  The instance attributes that \<^verbatim>\<open>__init__\<close> binds. \<open>optimizers\<close> is the dictionary
  literal in insertion order; \<open>step_counter\<close> is \<^verbatim>\<open>self._step\<close>.
\<close>

record bert_sum_optimizer =
  encoder :: module
  decoder :: module
  lr :: "string \<rightharpoonup> real"
  warmup_steps :: "string \<rightharpoonup> real"
  optimizers :: "(string \<times> adam) list"
  step_counter :: nat
  current_learning_rates :: "string \<rightharpoonup> real"

text \<open>
  \<^verbatim>\<open>__init__\<close>: the two subscripts \<^verbatim>\<open>lr["encoder"]\<close> and \<^verbatim>\<open>lr["decoder"]\<close> are
  evaluated while the dictionary of optimizers is built, in that order.
\<close>

definition init :: "model \<Rightarrow> (string \<rightharpoonup> real) \<Rightarrow> (string \<rightharpoonup> real) \<Rightarrow> error + bert_sum_optimizer" where
  "init m lr0 warmup0 =
     bind (subscript lr0 ''encoder'') (\<lambda>lr_enc.
     bind (subscript lr0 ''decoder'') (\<lambda>lr_dec.
       Inr \<lparr>encoder = model_encoder m,
            decoder = model_decoder m,
            lr = lr0,
            warmup_steps = warmup0,
            optimizers = [(''encoder'', Adam lr_enc), (''decoder'', Adam lr_dec)],
            step_counter = 0,
            current_learning_rates = Map.empty\<rparr>))"

text \<open>
  \<^verbatim>\<open>_update_rate\<close>: the operands are evaluated left to right, so a missing learning
  rate is reported before a zero counter, and that before a missing or zero warm-up; the
  outer product comes last and converts the learning rate. Its other factor lies between
  0 and 1 (the counter is at least 1 when the minimum is reached), so this product stays
  within the float range.
\<close>

definition update_rate :: "bert_sum_optimizer \<Rightarrow> string \<Rightarrow> error + real" where
  "update_rate self stack =
     bind (subscript (lr self) stack) (\<lambda>base.
     bind (py_pow (real (step_counter self)) (- 0.5)) (\<lambda>decay.
     bind (subscript (warmup_steps self) stack) (\<lambda>w.
     bind (py_pow w (- 1.5)) (\<lambda>p.
     bind (py_min decay (py_mul (real (step_counter self)) p)) (\<lambda>m.
     bind (to_float base) (\<lambda>b.
       Inr (b * m)))))))"

subsection \<open>Attribute lookup and \<^verbatim>\<open>zero_grad\<close>\<close>

text \<open>
  What an attribute of a \<^verbatim>\<open>BertSumOptimizer\<close> instance resolves to: the attributes
  bound by \<^verbatim>\<open>__init__\<close> and the methods of the class. Any other name raises
  \<^verbatim>\<open>AttributeError\<close> (the double-underscore attributes that every object inherits
  are left out; the source reads none of them).
\<close>

datatype pyobj = ObjModule string | ObjDict | ObjInt | ObjMethod

definition getattr :: "bert_sum_optimizer \<Rightarrow> string \<Rightarrow> error + pyobj" where
  "getattr self name =
     (if name = ''encoder'' \<or> name = ''decoder'' then Inr (ObjModule name)
      else if name \<in> set [''lr'', ''warmup_steps'', ''optimizers'', ''current_learning_rates'']
        then Inr ObjDict
      else if name = ''_step'' then Inr ObjInt
      else if name \<in> set [''__init__'', ''_update_rate'', ''zero_grad'', ''step'']
        then Inr ObjMethod
      else Inl (AttributeError name))"

text \<open>
  \<^verbatim>\<open>obj.zero_grad()\<close> on such an object: a module clears the gradients of its
  parameters; a dictionary, an integer and a bound method have no such attribute.
\<close>

fun call_zero_grad :: "bert_sum_optimizer \<Rightarrow> pyobj \<Rightarrow> error + bert_sum_optimizer" where
  "call_zero_grad self (ObjModule name) =
     (if name = ''encoder'' then Inr (self\<lparr>encoder := module_zero_grad (encoder self)\<rparr>)
      else Inr (self\<lparr>decoder := module_zero_grad (decoder self)\<rparr>))"
| "call_zero_grad self _ = Inl (AttributeError ''zero_grad'')"

definition zero_grad :: "bert_sum_optimizer \<Rightarrow> error + bert_sum_optimizer" where
  "zero_grad self =
     bind (getattr self ''optimizer_decoder'') (\<lambda>d.
     bind (call_zero_grad self d) (\<lambda>self1.
     bind (getattr self1 ''optimizer_encoder'') (\<lambda>e.
       call_zero_grad self1 e)))"

subsection \<open>\<^verbatim>\<open>step\<close>\<close>

text \<open>
  One pass of the loop body of \<^verbatim>\<open>step\<close> for the optimizer stored under \<open>stack\<close>: the
  new rate is written to the optimizer's parameter groups, the optimizer steps, and the
  rate is recorded.
\<close>

definition step_stack :: "string \<Rightarrow> bert_sum_optimizer \<Rightarrow> error + bert_sum_optimizer" where
  "step_stack stack self =
     bind (update_rate self stack) (\<lambda>new_rate.
       Inr (self\<lparr>optimizers :=
                   map (\<lambda>(k, a). if k = stack
                                 then (k, adam_step (a\<lparr>param_group_lr := new_rate\<rparr>))
                                 else (k, a))
                       (optimizers self),
                 current_learning_rates := (current_learning_rates self)(stack \<mapsto> new_rate)\<rparr>))"

fun step_stacks :: "string list \<Rightarrow> bert_sum_optimizer \<Rightarrow> error + bert_sum_optimizer" where
  "step_stacks [] self = Inr self"
| "step_stacks (stack # rest) self = bind (step_stack stack self) (step_stacks rest)"

definition step :: "bert_sum_optimizer \<Rightarrow> error + bert_sum_optimizer" where
  "step self =
     step_stacks (map fst (optimizers self)) (self\<lparr>step_counter := step_counter self + 1\<rparr>)"

text \<open>\<open>n\<close> consecutive calls of \<^verbatim>\<open>step()\<close>.\<close>

fun step_n :: "nat \<Rightarrow> bert_sum_optimizer \<Rightarrow> error + bert_sum_optimizer" where
  "step_n 0 self = Inr self"
| "step_n (Suc n) self = bind (step self) (step_n n)"

text \<open>
  The rate of the schedule as the specification writes it, for a base rate, a warm-up
  length and a counter value:
  \<^verbatim>\<open>base_lr * min(counter^-0.5, counter * warmup^-1.5)\<close>.
\<close>

definition schedule_rate :: "real \<Rightarrow> real \<Rightarrow> nat \<Rightarrow> real" where
  "schedule_rate base w n = base * min (real n powr (- 0.5)) (real n * w powr (- 1.5))"

text \<open>
  The numbers for which the schedule can be computed in floats: a learning rate within
  the float range, and a warm-up length that is positive, within the float range, and
  whose power \<^verbatim>\<open>w ** (-1.5)\<close> is within the float range as well.
\<close>

definition in_float_range :: "real \<Rightarrow> bool" where
  "in_float_range x \<longleftrightarrow> \<bar>x\<bar> \<le> float_max"

definition usable_warmup :: "real \<Rightarrow> bool" where
  "usable_warmup w \<longleftrightarrow> 0 < w \<and> w \<le> float_max \<and> w powr (- 1.5) \<le> float_max"

text \<open>
  The state of a \<^verbatim>\<open>BertSumOptimizer\<close> built from \<open>lr0\<close> and \<open>w0\<close> whose counter
  stands at \<open>n\<close>: both Adam optimizers have stepped \<open>n\<close> times and, once a step has
  happened, carry the scheduled rate of counter \<open>n\<close>.
\<close>

definition stepped :: "(string \<rightharpoonup> real) \<Rightarrow> (string \<rightharpoonup> real) \<Rightarrow> nat \<Rightarrow> bert_sum_optimizer \<Rightarrow> bool" where
  "stepped lr0 w0 n self \<longleftrightarrow>
     lr self = lr0 \<and> warmup_steps self = w0 \<and> step_counter self = n \<and>
     map fst (optimizers self) = [''encoder'', ''decoder''] \<and>
     map (n_updates \<circ> snd) (optimizers self) = [n, n] \<and>
     (0 < n \<longrightarrow>
        current_learning_rates self ''encoder'' =
          Some (schedule_rate (the (lr0 ''encoder'')) (the (w0 ''encoder'')) n) \<and>
        current_learning_rates self ''decoder'' =
          Some (schedule_rate (the (lr0 ''decoder'')) (the (w0 ''decoder'')) n) \<and>
        map (param_group_lr \<circ> snd) (optimizers self) =
          [schedule_rate (the (lr0 ''encoder'')) (the (w0 ''encoder'')) n,
           schedule_rate (the (lr0 ''decoder'')) (the (w0 ''decoder'')) n])"

section \<open>The training loop\<close>

text \<open>
  The argument namespace \<^verbatim>\<open>args\<close>: the command-line options that the functions below
  read, and the attributes that \<^verbatim>\<open>main\<close> adds while it sets up the devices.
\<close>

datatype device = Cpu | Cuda "int option"

record args =
  to_cpu :: bool
  local_rank :: int
  max_steps :: int
  gradient_accumulation_steps :: int
  num_train_epochs :: int
  logging_steps :: int
  per_gpu_train_batch_size :: int
  per_gpu_eval_batch_size :: int
  is_distributed :: bool
  is_first_process :: bool
  is_monitoring_process :: bool
  args_device :: device
  n_gpu :: int

text \<open>
  \<^verbatim>\<open>RandomSampler(dataset)\<close> as torch constructs it: the number of samples is the
  length of the dataset, and torch refuses one that is not positive.
\<close>

definition random_sampler :: "nat \<Rightarrow> error + nat" where
  "random_sampler n_examples =
     (if n_examples = 0
      then Inl (ValueError ''num_samples should be a positive integer value, but got num_samples=0'')
      else Inr n_examples)"

text \<open>
  \<^verbatim>\<open>len(DataLoader(dataset, batch_size=b))\<close> as torch computes it without
  \<^verbatim>\<open>drop_last\<close>: the number of examples divided by the batch size, rounded up; torch
  refuses a batch size that is not positive.
\<close>

definition len_dataloader :: "nat \<Rightarrow> int \<Rightarrow> error + int" where
  "len_dataloader n_examples batch_size =
     (if batch_size \<le> 0 then Inl (ValueError ''batch_size should be a positive integer value'')
      else Inr ((int n_examples + batch_size - 1) div batch_size))"

text \<open>Python's \<^verbatim>\<open>a // b\<close> and \<^verbatim>\<open>a % b\<close> on integers: floor division, as \<open>div\<close> and
  \<open>mod\<close> on \<open>int\<close>, and an exception for a zero divisor.\<close>

definition floordiv :: "int \<Rightarrow> int \<Rightarrow> error + int" where
  "floordiv a b =
     (if b = 0 then Inl (ZeroDivisionError ''integer division or modulo by zero'')
      else Inr (a div b))"

definition pymod :: "int \<Rightarrow> int \<Rightarrow> error + int" where
  "pymod a b =
     (if b = 0 then Inl (ZeroDivisionError ''integer division or modulo by zero'')
      else Inr (a mod b))"

text \<open>\<^verbatim>\<open>x / n\<close> for a float \<open>x\<close> and an integer \<open>n\<close>.\<close>

definition truediv :: "real \<Rightarrow> int \<Rightarrow> error + real" where
  "truediv x n =
     (if n = 0 then Inl (ZeroDivisionError ''float division by zero'')
      else Inr (x / real_of_int n))"

text \<open>
  The training schedule (lines 267 to 277): the number of epochs that the loop will run.
  With \<^verbatim>\<open>max_steps > 0\<close> the configured \<^verbatim>\<open>num_train_epochs\<close> is overwritten.
\<close>

definition training_schedule :: "args \<Rightarrow> int \<Rightarrow> error + args" where
  "training_schedule a len_loader =
     (if max_steps a > 0 then
        bind (floordiv len_loader (gradient_accumulation_steps a)) (\<lambda>q.
        bind (floordiv (max_steps a) (q + 1)) (\<lambda>epochs.
          Inr (a\<lparr>num_train_epochs := epochs\<rparr>)))
      else
        bind (floordiv len_loader (gradient_accumulation_steps a)) (\<lambda>q. Inr a))"

text \<open>The constants that \<^verbatim>\<open>train\<close> passes to the optimizer.\<close>

definition learning_rates :: "string \<rightharpoonup> real" where
  "learning_rates = [''encoder'' \<mapsto> 0.002, ''decoder'' \<mapsto> 0.1]"

definition train_warmup_steps :: "string \<rightharpoonup> real" where
  "train_warmup_steps = [''encoder'' \<mapsto> 20000, ''decoder'' \<mapsto> 10000]"

text \<open>
  The variables of the loop. \<open>n_batches\<close> counts the batches that have gone through the
  forward and backward pass; it is not a variable of the source and only observes the
  run. The gradients live in the encoder and decoder modules that the optimizer shares
  with the model.
\<close>

record train_state =
  global_step :: int
  tr_loss :: real
  logging_loss :: real
  optimizer :: bert_sum_optimizer
  n_batches :: nat

text \<open>\<^verbatim>\<open>model.zero_grad()\<close> clears the gradients of both sub-modules.\<close>

definition model_zero_grad :: "bert_sum_optimizer \<Rightarrow> bert_sum_optimizer" where
  "model_zero_grad opt =
     opt\<lparr>encoder := module_zero_grad (encoder opt), decoder := module_zero_grad (decoder opt)\<rparr>"

text \<open>The early-stop test of lines 406 and 419.\<close>

definition past_max_steps :: "args \<Rightarrow> train_state \<Rightarrow> bool" where
  "past_max_steps a s \<longleftrightarrow> max_steps a > 0 \<and> global_step s > max_steps a"

text \<open>
  The body of the inner loop for the batch with index \<open>step\<close> of the current epoch, up to
  the early-stop test. \<open>losses k\<close> is the loss that the model returns for the \<open>k\<close>-th
  batch it sees (after the mean over replicas). The values written to the monitoring
  sink are not kept; \<^verbatim>\<open>logging_loss\<close> is.
\<close>

definition process_batch :: "args \<Rightarrow> (nat \<Rightarrow> real) \<Rightarrow> nat \<Rightarrow> train_state \<Rightarrow> error + train_state" where
  "process_batch a losses step_idx s =
     (let loss0 = losses (n_batches s);
          loss = (if gradient_accumulation_steps a > 1
                  then loss0 / real_of_int (gradient_accumulation_steps a) else loss0);
          s1 = s\<lparr>tr_loss := tr_loss s + loss, n_batches := Suc (n_batches s)\<rparr>
      in bind (pymod (int step_idx + 1) (gradient_accumulation_steps a)) (\<lambda>r.
           if r = 0 then
             bind (step (optimizer s1)) (\<lambda>opt.
               let s2 = s1\<lparr>optimizer := model_zero_grad opt, global_step := global_step s1 + 1\<rparr>
               in if is_monitoring_process a \<and> logging_steps a > 0
                     \<and> global_step s2 mod logging_steps a = 0
                  then Inr (s2\<lparr>logging_loss := tr_loss s2\<rparr>)
                  else Inr s2)
           else Inr s1))"

text \<open>
  The inner loop over the batches of one epoch, entered at index \<open>step_idx\<close> with
  \<open>remaining\<close> batches left: after each batch the early-stop test may leave the loop.
\<close>

primrec run_batches :: "args \<Rightarrow> (nat \<Rightarrow> real) \<Rightarrow> nat \<Rightarrow> nat \<Rightarrow> train_state \<Rightarrow> error + train_state" where
  "run_batches a losses 0 step_idx s = Inr s"
| "run_batches a losses (Suc remaining) step_idx s =
     bind (process_batch a losses step_idx s) (\<lambda>s'.
       if past_max_steps a s' then Inr s'
       else run_batches a losses remaining (Suc step_idx) s')"

text \<open>
  The outer loop over \<open>epochs\<close> epochs of \<open>len_loader\<close> batches each: after each epoch the
  same test may leave the loop.
\<close>

primrec run_epochs :: "args \<Rightarrow> (nat \<Rightarrow> real) \<Rightarrow> nat \<Rightarrow> nat \<Rightarrow> train_state \<Rightarrow> error + train_state" where
  "run_epochs a losses len_loader 0 s = Inr s"
| "run_epochs a losses len_loader (Suc epochs) s =
     bind (run_batches a losses len_loader 0 s) (\<lambda>s'.
       if past_max_steps a s' then Inr s'
       else run_epochs a losses len_loader epochs s')"

text \<open>
  The two loops resumed in the middle of an epoch: the batch with index \<open>step_idx\<close> is
  next, \<open>remaining\<close> batches of this epoch and \<open>epochs\<close> whole epochs are still to come.
\<close>

definition resume_loops :: "args \<Rightarrow> (nat \<Rightarrow> real) \<Rightarrow> nat \<Rightarrow> nat \<Rightarrow> nat \<Rightarrow> nat \<Rightarrow> train_state \<Rightarrow> error + train_state" where
  "resume_loops a losses len_loader epochs remaining step_idx s =
     bind (run_batches a losses remaining step_idx s) (\<lambda>s'.
       if past_max_steps a s' then Inr s'
       else run_epochs a losses len_loader epochs s')"

text \<open>
  \<^verbatim>\<open>train\<close> up to its \<^verbatim>\<open>return\<close>, for a dataset of \<open>n_examples\<close> examples: the
  sampler, the data loader, the schedule, the optimizer, \<^verbatim>\<open>model.zero_grad()\<close> and the
  two loops. \<^verbatim>\<open>trange(n)\<close> is empty for \<open>n \<le> 0\<close>.
\<close>

definition train_loop :: "args \<Rightarrow> model \<Rightarrow> nat \<Rightarrow> (nat \<Rightarrow> real) \<Rightarrow> error + train_state" where
  "train_loop a m n_examples losses =
     bind (random_sampler n_examples) (\<lambda>num_samples.
     bind (len_dataloader n_examples (per_gpu_train_batch_size a * max 1 (n_gpu a))) (\<lambda>len_loader.
     bind (training_schedule a len_loader) (\<lambda>a'.
     bind (init m learning_rates train_warmup_steps) (\<lambda>opt.
       run_epochs a' losses (nat len_loader) (nat (num_train_epochs a'))
         \<lparr>global_step = 0, tr_loss = 0, logging_loss = 0,
          optimizer = model_zero_grad opt, n_batches = 0\<rparr>))))"

text \<open>\<^verbatim>\<open>train\<close>: the pair \<^verbatim>\<open>(global_step, tr_loss / global_step)\<close>.\<close>

definition train :: "args \<Rightarrow> model \<Rightarrow> nat \<Rightarrow> (nat \<Rightarrow> real) \<Rightarrow> error + int \<times> real" where
  "train a m n_examples losses =
     bind (train_loop a m n_examples losses) (\<lambda>s.
     bind (truediv (tr_loss s) (global_step s)) (\<lambda>avg.
       Inr (global_step s, avg)))"

text \<open>A model with two parameters in each sub-module, for concrete runs.\<close>

definition model0 :: model where
  "model0 = \<lparr>model_encoder = \<lparr>grad = [1, 2]\<rparr>, model_decoder = \<lparr>grad = [3, 4]\<rparr>\<rparr>"

text \<open>
  The defaults of the command line, after the device setup of a run without CUDA
  devices and without \<^verbatim>\<open>--local_rank\<close>.
\<close>

definition default_args :: args where
  "default_args =
     \<lparr>to_cpu = False, local_rank = - 1, max_steps = - 1, gradient_accumulation_steps = 1,
      num_train_epochs = 10, logging_steps = 50, per_gpu_train_batch_size = 4,
      per_gpu_eval_batch_size = 4, is_distributed = False, is_first_process = False,
      is_monitoring_process = True, args_device = Cpu, n_gpu = 0\<rparr>"

section \<open>Device setup in \<^verbatim>\<open>main\<close>\<close>

text \<open>
  What the script can observe of \<^verbatim>\<open>torch.cuda\<close>: the value that a call
  \<^verbatim>\<open>torch.cuda.is_available()\<close> returns, and \<^verbatim>\<open>torch.cuda.device_count()\<close>.
\<close>

record torch_cuda =
  is_available_result :: bool
  device_count :: int

text \<open>
  The operand of a Python condition: a boolean, or a function object (kept with the value
  that calling it would return). A function object is always true.
\<close>

datatype pyvalue = Bool bool | Function bool

fun truth :: "pyvalue \<Rightarrow> bool" where
  "truth (Bool b) = b"
| "truth (Function _) = True"

text \<open>The attribute \<^verbatim>\<open>torch.cuda.is_available\<close>, not called.\<close>

definition is_available :: "torch_cuda \<Rightarrow> pyvalue" where
  "is_available cuda = Function (is_available_result cuda)"

text \<open>
  Lines 597 to 610 of \<^verbatim>\<open>main\<close>. The condition of the first branch is
  \<^verbatim>\<open>args.to_cpu or not torch.cuda.is_available\<close>, without a call. What
  \<^verbatim>\<open>torch.cuda.set_device\<close> and \<^verbatim>\<open>init_process_group\<close> do in the last branch is
  torch's own.
\<close>

definition setup_devices :: "args \<Rightarrow> torch_cuda \<Rightarrow> args" where
  "setup_devices a0 cuda =
     (let a1 = a0\<lparr>is_distributed := (local_rank a0 \<noteq> - 1)\<rparr>;
          a2 = a1\<lparr>is_first_process := (local_rank a1 = 0)\<rparr>;
          a = a2\<lparr>is_monitoring_process := (\<not> is_distributed a2 \<or> is_first_process a2)\<rparr>
      in if to_cpu a \<or> \<not> truth (is_available cuda)
           then a\<lparr>args_device := Cpu, n_gpu := 0\<rparr>
         else if \<not> is_distributed a
           then a\<lparr>args_device := Cuda None, n_gpu := device_count cuda\<rparr>
         else a\<lparr>args_device := Cuda (Some (local_rank a)), n_gpu := 1\<rparr>)"

section \<open>The batch assembler \<^verbatim>\<open>collate\<close>\<close>

text \<open>A two-dimensional integer tensor, as the list of its rows.\<close>

type_synonym tensor = "int list list"

text \<open>
  The tokenizer collaborator: its special token ids, the vocabulary ids that it gives the
  words of one line (\<open>encode_line\<close>, without special tokens), and its \<^verbatim>\<open>decode\<close>. An
  example of the dataset is a pair of a story and a summary, each a list of lines.
\<close>

record tokenizer =
  pad_token_id :: int
  cls_token_id :: int
  sep_token_id :: int
  encode_line :: "string \<Rightarrow> int list"
  decode :: "int list \<Rightarrow> string"

type_synonym example = "string list \<times> string list"

text \<open>
  Of the helpers that \<^verbatim>\<open>collate\<close> imports from \<^verbatim>\<open>utils_summarization\<close>, the part
  that the specification leaves open: the token type ids that
  \<^verbatim>\<open>compute_token_type_ids\<close> gives one row.
\<close>

record utils =
  token_type_ids_of_row :: "int list \<Rightarrow> int \<Rightarrow> int list"

text \<open>
  Modelled from the spec: \<^verbatim>\<open>encode_for_summarization\<close> of \<^verbatim>\<open>utils_summarization\<close>,
  which is not among the sources. Each side is encoded into one sequence of token ids with
  the special tokens inserted: every line is led by the class token and closed by the
  separator token, and the lines of a side follow one another.
\<close>

definition encode_lines :: "string list \<Rightarrow> tokenizer \<Rightarrow> int list" where
  "encode_lines lines tok =
     concat (map (\<lambda>line. cls_token_id tok # encode_line tok line @ [sep_token_id tok]) lines)"

definition encode_for_summarization :: "string list \<Rightarrow> string list \<Rightarrow> tokenizer \<Rightarrow> int list \<times> int list" where
  "encode_for_summarization story_lines summary_lines tok =
     (encode_lines story_lines tok, encode_lines summary_lines tok)"

text \<open>
  Modelled from the spec: \<^verbatim>\<open>fit_to_block_size\<close> of \<^verbatim>\<open>utils_summarization\<close>, which is
  not among the sources. It truncates or pads a sequence to exactly \<open>block_size\<close> tokens
  with the pad id.
\<close>

definition fit_to_block_size :: "int list \<Rightarrow> nat \<Rightarrow> int \<Rightarrow> int list" where
  "fit_to_block_size sequence block_size pad =
     take block_size sequence @ replicate (block_size - length sequence) pad"

text \<open>
  Modelled from the spec: \<^verbatim>\<open>build_mask\<close> of \<^verbatim>\<open>utils_summarization\<close>, which is not
  among the sources. The mask is 1 where the token is not the pad id, else 0.
\<close>

definition build_mask :: "tensor \<Rightarrow> int \<Rightarrow> tensor" where
  "build_mask sequences pad = map (map (\<lambda>t. if t = pad then 0 else 1)) sequences"

text \<open>
  Modelled from the spec: \<^verbatim>\<open>build_lm_labels\<close> of \<^verbatim>\<open>utils_summarization\<close>, which is
  not among the sources. The labels copy the target with pad positions replaced by the
  ignore sentinel \<open>-1\<close>.
\<close>

definition build_lm_labels :: "tensor \<Rightarrow> int \<Rightarrow> tensor" where
  "build_lm_labels sequences pad = map (map (\<lambda>t. if t = pad then - 1 else t)) sequences"

text \<open>
  Modelled from the spec: \<^verbatim>\<open>compute_token_type_ids\<close> of \<^verbatim>\<open>utils_summarization\<close>,
  which is not among the sources. Each position of each row gets the segment it belongs
  to; how a row is segmented is left to \<open>token_type_ids_of_row\<close>.
\<close>

definition compute_token_type_ids :: "utils \<Rightarrow> tensor \<Rightarrow> int \<Rightarrow> tensor" where
  "compute_token_type_ids u batch separator =
     map (\<lambda>row. token_type_ids_of_row u row separator) batch"

text \<open>
  \<^verbatim>\<open>torch.tensor\<close> on a list of rows: torch refuses rows of different lengths.
\<close>

definition torch_tensor :: "int list list \<Rightarrow> error + tensor" where
  "torch_tensor rows =
     (if \<forall>r \<in> set rows. length r = length (hd rows) then Inr rows
      else Inl (ValueError ''expected sequence of equal length''))"

record batch =
  stories :: tensor
  summaries :: tensor
  encoder_token_type_ids :: tensor
  encoder_mask :: tensor
  decoder_mask :: tensor
  lm_labels :: tensor

text \<open>The test of the \<^verbatim>\<open>filter\<close> in \<^verbatim>\<open>collate\<close>, on the raw pair.\<close>

definition has_empty_side :: "example \<Rightarrow> bool" where
  "has_empty_side x \<longleftrightarrow> length (fst x) = 0 \<or> length (snd x) = 0"

definition collate :: "example list \<Rightarrow> tokenizer \<Rightarrow> utils \<Rightarrow> nat \<Rightarrow> error + batch" where
  "collate data0 tok u block_size =
     (let data1 = filter (\<lambda>x. \<not> has_empty_side x) data0;
          data2 = map (\<lambda>(story, summary). encode_for_summarization story summary tok) data1;
          data3 = map (\<lambda>(story, summary).
                     (fit_to_block_size story block_size (pad_token_id tok),
                      fit_to_block_size summary block_size (pad_token_id tok))) data2
      in bind (torch_tensor (map fst data3)) (\<lambda>stories_t.
         bind (torch_tensor (map snd data3)) (\<lambda>summaries_t.
           Inr \<lparr>stories = stories_t,
                summaries = summaries_t,
                encoder_token_type_ids =
                  compute_token_type_ids u stories_t (cls_token_id tok),
                encoder_mask = build_mask stories_t (pad_token_id tok),
                decoder_mask = build_mask summaries_t (pad_token_id tok),
                lm_labels = build_lm_labels summaries_t (pad_token_id tok)\<rparr>)))"

text \<open>
  The pair of rows that \<^verbatim>\<open>collate\<close> builds for one example: both sides encoded and
  fitted to the block size.
\<close>

definition fitted :: "tokenizer \<Rightarrow> nat \<Rightarrow> example \<Rightarrow> int list \<times> int list" where
  "fitted tok block_size x =
     (fit_to_block_size (fst (encode_for_summarization (fst x) (snd x) tok)) block_size
        (pad_token_id tok),
      fit_to_block_size (snd (encode_for_summarization (fst x) (snd x) tok)) block_size
        (pad_token_id tok))"


text \<open>
  A small vocabulary for concrete runs: one token id per character; \<^verbatim>\<open>decode\<close> maps
  the ids back and drops the pad id 0 and the two special tokens. The token type ids of a
  row are all 0.
\<close>

definition token_of_char :: "char \<Rightarrow> int" where
  "token_of_char c =
     (if c = CHR ''a'' then 1 else if c = CHR ''b'' then 2 else if c = CHR ''c'' then 3
      else if c = CHR ''.'' then 4 else 9)"

definition char_of_token :: "int \<Rightarrow> char" where
  "char_of_token i =
     (if i = 1 then CHR ''a'' else if i = 2 then CHR ''b'' else if i = 3 then CHR ''c''
      else if i = 4 then CHR ''.'' else CHR ''?'')"

definition char_tokenizer :: tokenizer where
  "char_tokenizer =
     \<lparr>pad_token_id = 0, cls_token_id = 101, sep_token_id = 102,
      encode_line = map token_of_char,
      decode = (\<lambda>ids. map char_of_token (filter (\<lambda>i. i \<noteq> 0 \<and> i \<noteq> 101 \<and> i \<noteq> 102) ids))\<rparr>"

definition char_utils :: utils where
  "char_utils = \<lparr>token_type_ids_of_row = (\<lambda>row separator. map (\<lambda>t. 0) row)\<rparr>"

section \<open>Decoding a summary\<close>

text \<open>\<^verbatim>\<open>text.split(c)\<close> for a one-character separator: the fragments between the
  occurrences of \<open>c\<close>, empty ones included.\<close>

fun split_on :: "char \<Rightarrow> string \<Rightarrow> string list" where
  "split_on c [] = [[]]"
| "split_on c (x # xs) =
     (if x = c then [] # split_on c xs
      else (case split_on c xs of [] \<Rightarrow> [[x]] | y # ys \<Rightarrow> (x # y) # ys))"

text \<open>\<^verbatim>\<open>sep.join(parts)\<close>.\<close>

fun join :: "string \<Rightarrow> string list \<Rightarrow> string" where
  "join sep [] = []"
| "join sep [x] = x"
| "join sep (x # y # ys) = x @ sep @ join sep (y # ys)"

definition decode_summary :: "int list \<Rightarrow> tokenizer \<Rightarrow> string list" where
  "decode_summary summary_tokens tok =
     (let summary = decode tok summary_tokens;
          sentences = split_on CHR ''.'' summary
      in map (\<lambda>s. s @ ''.'') sentences)"

text \<open>The text that \<^verbatim>\<open>evaluate\<close> writes into the file of one summary.\<close>

definition summary_file_text :: "int list \<Rightarrow> tokenizer \<Rightarrow> string" where
  "summary_file_text summary_tokens tok = join [CHR 0x0A] (decode_summary summary_tokens tok)"

section \<open>Summarizing and evaluating\<close>

text \<open>
  What a call of the \<^verbatim>\<open>BeamSearch\<close> object of \<^verbatim>\<open>transformers.generate\<close> returns: for
  each row of the batch the scores of its candidates and the token sequences of its
  candidates. The search itself is not among the sources; it is a parameter that maps
  the source tensor, the token type ids and the mask to its results, or raises.
\<close>

record beam_results =
  scores :: "real list list"
  predictions :: "int list list list"

type_synonym beam_search = "tensor \<Rightarrow> tensor \<Rightarrow> tensor \<Rightarrow> error + beam_results"

text \<open>\<^verbatim>\<open>xs[i]\<close> for an index that is not negative.\<close>

definition index :: "'a list \<Rightarrow> nat \<Rightarrow> error + 'a" where
  "index xs i = (if i < length xs then Inr (xs ! i) else Inl (IndexError ''index out of range''))"

text \<open>
  \<^verbatim>\<open>max(enumerate(xs), key=lambda x: x[1])[0]\<close>: the position of the first largest
  element; \<^verbatim>\<open>max\<close> of an empty sequence raises \<^verbatim>\<open>ValueError\<close>.
\<close>

fun best_from :: "nat \<Rightarrow> real \<Rightarrow> nat \<Rightarrow> real list \<Rightarrow> nat" where
  "best_from best_i best_v i [] = best_i"
| "best_from best_i best_v i (x # xs) =
     (if best_v < x then best_from i x (Suc i) xs else best_from best_i best_v (Suc i) xs)"

definition best_index :: "real list \<Rightarrow> error + nat" where
  "best_index xs =
     (case xs of [] \<Rightarrow> Inl (ValueError ''max() arg is an empty sequence'')
      | x # rest \<Rightarrow> Inr (best_from 0 x 1 rest))"

text \<open>A list comprehension whose element expression may raise.\<close>

fun map_result :: "('a \<Rightarrow> error + 'b) \<Rightarrow> 'a list \<Rightarrow> error + 'b list" where
  "map_result f [] = Inr []"
| "map_result f (x # xs) =
     bind (f x) (\<lambda>y. bind (map_result f xs) (\<lambda>ys. Inr (y # ys)))"

definition summarize :: "beam_search \<Rightarrow> tensor \<Rightarrow> tensor \<Rightarrow> tensor \<Rightarrow> error + int list list" where
  "summarize beam source token_type_ids attention_mask =
     (let batch_size = length source
      in bind (beam source token_type_ids attention_mask) (\<lambda>results.
         bind (map_result (\<lambda>i. bind (index (scores results) i) best_index) [0..<batch_size])
           (\<lambda>best_predictions_idx.
         map_result (\<lambda>(b, idx). bind (index (predictions results) b) (\<lambda>p. index p idx))
           (zip [0..<batch_size] best_predictions_idx))))"

text \<open>\<^verbatim>\<open>"{}".format(n)\<close> for an integer that is not negative: its decimal digits.\<close>

definition digit_char :: "nat \<Rightarrow> char" where
  "digit_char d = ''0123456789'' ! d"

fun format_nat :: "nat \<Rightarrow> string" where
  "format_nat n =
     (if n < 10 then [digit_char n] else format_nat (n div 10) @ [digit_char (n mod 10)])"

declare format_nat.simps [simp del]

text \<open>The number that a string of decimal digits denotes.\<close>

definition digit_value :: "char \<Rightarrow> nat" where
  "digit_value c = length (takeWhile (\<lambda>d. d \<noteq> c) ''0123456789'')"

definition decimal_value :: "string \<Rightarrow> nat" where
  "decimal_value s = foldl (\<lambda>acc c. 10 * acc + digit_value c) 0 s"

text \<open>\<^verbatim>\<open>os.path.join(a, b)\<close> on a POSIX system.\<close>

definition path_join :: "string \<Rightarrow> string \<Rightarrow> string" where
  "path_join a b =
     (if b \<noteq> [] \<and> hd b = CHR ''/'' then b
      else if a = [] \<or> last a = CHR ''/'' then a @ b
      else a @ ''/'' @ b)"

definition summary_path :: "string \<Rightarrow> nat \<Rightarrow> string" where
  "summary_path path_to_summaries idx = path_join path_to_summaries (''model_'' @ format_nat idx @ ''.txt'')"

text \<open>
  The variables of \<^verbatim>\<open>evaluate\<close>: the running index and the files written so far, each
  with its path and its text, in the order of the writes.
\<close>

record eval_state =
  idx_summary :: nat
  written :: "(string \<times> string) list"

text \<open>The inner loop over the summaries of one batch.\<close>

fun write_summaries :: "string \<Rightarrow> tokenizer \<Rightarrow> int list list \<Rightarrow> eval_state \<Rightarrow> eval_state" where
  "write_summaries path_to_summaries tok [] st = st"
| "write_summaries path_to_summaries tok (summary_tokens # rest) st =
     write_summaries path_to_summaries tok rest
       \<lparr>idx_summary = idx_summary st + 1,
        written = written st @
          [(summary_path path_to_summaries (idx_summary st), summary_file_text summary_tokens tok)]\<rparr>"

text \<open>
  The batches that a \<^verbatim>\<open>DataLoader\<close> with a \<^verbatim>\<open>SequentialSampler\<close> hands to the
  collate function: consecutive slices of \<open>batch_size\<close> examples, the last one shorter.
\<close>

function batches_of :: "nat \<Rightarrow> 'a list \<Rightarrow> 'a list list" where
  "batches_of batch_size xs =
     (if batch_size = 0 \<or> xs = [] then []
      else take batch_size xs # batches_of batch_size (drop batch_size xs))"
  by pat_completeness auto
termination
  by (relation "measure (\<lambda>(batch_size, xs). length xs)") auto

declare batches_of.simps [simp del]

text \<open>The outer loop over the batches of the loader, with block size 512.\<close>

fun eval_batches :: "tokenizer \<Rightarrow> utils \<Rightarrow> beam_search \<Rightarrow> string \<Rightarrow> example list list \<Rightarrow> eval_state \<Rightarrow> error + eval_state" where
  "eval_batches tok u beam path_to_summaries [] st = Inr st"
| "eval_batches tok u beam path_to_summaries (examples # rest) st =
     bind (collate examples tok u 512) (\<lambda>b.
     bind (summarize beam (stories b) (encoder_token_type_ids b) (encoder_mask b))
       (\<lambda>summaries_tokens.
         eval_batches tok u beam path_to_summaries rest
           (write_summaries path_to_summaries tok summaries_tokens st)))"

text \<open>
  \<^verbatim>\<open>evaluate\<close>. \<open>cpu_count\<close> is the module constant \<^verbatim>\<open>CPU_COUNT\<close>; torch's
  \<^verbatim>\<open>DataLoader\<close> refuses a negative number of workers and a batch size that is not
  positive.
\<close>

definition evaluate :: "args \<Rightarrow> example list \<Rightarrow> tokenizer \<Rightarrow> utils \<Rightarrow> beam_search \<Rightarrow> string \<Rightarrow> int \<Rightarrow> error + eval_state" where
  "evaluate a dataset tok u beam path_to_summaries cpu_count =
     (let eval_batch_size = per_gpu_eval_batch_size a * max 1 (n_gpu a)
      in if cpu_count - 2 < 0
           then Inl (ValueError ''num_workers option should be non-negative'')
         else if eval_batch_size \<le> 0
           then Inl (ValueError ''batch_size should be a positive integer value'')
         else eval_batches tok u beam path_to_summaries
                (batches_of (nat eval_batch_size) dataset)
                \<lparr>idx_summary = 0, written = []\<rparr>)"

text \<open>
  The summaries of a whole run in the order in which the loops produce them: those of
  the first batch, then those of the second, and so on.
\<close>

fun all_summaries :: "tokenizer \<Rightarrow> utils \<Rightarrow> beam_search \<Rightarrow> example list list \<Rightarrow> error + int list list" where
  "all_summaries tok u beam [] = Inr []"
| "all_summaries tok u beam (examples # rest) =
     bind (collate examples tok u 512) (\<lambda>b.
     bind (summarize beam (stories b) (encoder_token_type_ids b) (encoder_mask b))
       (\<lambda>summaries_tokens.
     bind (all_summaries tok u beam rest) (\<lambda>more. Inr (summaries_tokens @ more))))"

text \<open>
  A beam search that keeps its contract: for every batch it returns, for each row, a
  list of candidates that is not empty, with one score per candidate.
\<close>

definition well_formed_beam :: "beam_search \<Rightarrow> bool" where
  "well_formed_beam beam \<longleftrightarrow>
     (\<forall>source token_type_ids attention_mask. \<exists>results.
        beam source token_type_ids attention_mask = Inr results \<and>
        length (scores results) = length source \<and>
        length (predictions results) = length source \<and>
        (\<forall>i < length source.
           scores results ! i \<noteq> [] \<and>
           length (predictions results ! i) = length (scores results ! i)))"

text \<open>
  A beam search for concrete runs: two candidates per row, the second one (the tokens of
  the row without the pads) with the higher score.
\<close>

definition copy_beam :: beam_search where
  "copy_beam source token_type_ids attention_mask =
     Inr \<lparr>scores = map (\<lambda>row. [- 2, - 1]) source,
          predictions = map (\<lambda>row. [[9], filter (\<lambda>t. t \<noteq> 0) row]) source\<rparr>"

text \<open>
  \<^verbatim>\<open>create_evaluation_set\<close>: the reference summaries that the evaluation compares the
  files of \<^verbatim>\<open>evaluate\<close> with. It enumerates the same dataset and writes the summary lines
  of the example at position \<open>i\<close> to \<^verbatim>\<open>original_i.txt\<close>; the result is the list of the
  files written, each with its path and its text.
\<close>

definition create_evaluation_set :: "example list \<Rightarrow> string \<Rightarrow> (string \<times> string) list" where
  "create_evaluation_set dataset path_to_formatted_summaries =
     map (\<lambda>(i, (story_lines, summary_lines)).
            (path_to_formatted_summaries @ ''/original_'' @ format_nat i @ ''.txt'',
             join [CHR 0x0A] summary_lines))
         (enumerate 0 dataset)"

section \<open>Properties of BertSumOptimizer\<close>

lemma bind_Inr [simp]: "bind (Inr v) f = f v"
  by (simp add: bind_def)

lemma bind_Inl [simp]: "bind (Inl e) f = Inl e"
  by (simp add: bind_def)

text \<open>
  C1. \<^verbatim>\<open>zero_grad()\<close> never clears a gradient: on every optimizer object the lookup of
  \<^verbatim>\<open>self.optimizer_decoder\<close> raises \<^verbatim>\<open>AttributeError\<close>, because \<^verbatim>\<open>__init__\<close>
  stores the two Adam optimizers only inside \<^verbatim>\<open>self.optimizers\<close>.
\<close>

theorem zero_grad_raises_attribute_error:
  "zero_grad self = Inl (AttributeError ''optimizer_decoder'')"
  by (simp add: zero_grad_def getattr_def)

lemma float_max_ge_one: "1 \<le> float_max"
  by (simp add: float_max_def)

lemma powr_neg_le_one:
  fixes x :: real
  assumes "1 \<le> x" "e \<le> 0"
  shows "x powr e \<le> 1"
proof -
  have "x powr e \<le> x powr 0" using assms by (intro powr_mono) simp_all
  then show ?thesis using assms by simp
qed

lemma usable_warmup_from_one:
  assumes "1 \<le> w" "w \<le> float_max"
  shows "usable_warmup w"
proof -
  have "w powr (- 1.5) \<le> 1" using assms(1) by (intro powr_neg_le_one) simp_all
  then show ?thesis using assms float_max_ge_one by (simp add: usable_warmup_def)
qed

lemma py_pow_counter:
  assumes "0 < n" "real n \<le> float_max"
  shows "py_pow (real n) (- 0.5) = Inr (PyFloat (real n powr (- 0.5)))"
proof -
  have "real n powr (- 0.5) \<le> 1" using assms(1) by (intro powr_neg_le_one) simp_all
  then have "\<not> float_max < real n powr (- 0.5)" using float_max_ge_one by simp
  then show ?thesis using assms by (simp add: py_pow_def to_float_def)
qed

lemma py_pow_warmup:
  assumes "usable_warmup w"
  shows "py_pow w (- 1.5) = Inr (PyFloat (w powr (- 1.5)))"
  using assms by (simp add: py_pow_def to_float_def usable_warmup_def)

lemma py_min_counter:
  assumes "0 < n"
  shows "py_min (PyFloat (real n powr (- 0.5))) (py_mul (real n) (PyFloat p)) =
           Inr (min (real n powr (- 0.5)) (real n * p))"
proof (cases "float_max < real n * p")
  case True
  have "real n powr (- 0.5) \<le> 1" using assms by (intro powr_neg_le_one) simp_all
  then have "real n powr (- 0.5) \<le> real n * p" using True float_max_ge_one by simp
  then show ?thesis using True by (simp add: min_def)
next
  case False
  then show ?thesis by (simp add: min_def)
qed

lemma update_rate_ok:
  assumes "lr self stack = Some b" "in_float_range b"
    and "warmup_steps self stack = Some w" "usable_warmup w"
    and "0 < step_counter self" "real (step_counter self) \<le> float_max"
  shows "update_rate self stack = Inr (schedule_rate b w (step_counter self))"
proof -
  have 1: "subscript (lr self) stack = Inr b" "subscript (warmup_steps self) stack = Inr w"
    using assms by (simp_all add: subscript_def)
  have 2: "to_float b = Inr b"
    using assms(2) by (simp add: to_float_def in_float_range_def)
  show ?thesis
    unfolding update_rate_def
    by (simp only: 1 2 bind_Inr py_pow_counter[OF assms(5,6)] py_pow_warmup[OF assms(4)]
        py_min_counter[OF assms(5)] schedule_rate_def)
qed

lemma init_stepped:
  assumes "init m lr0 w0 = Inr self"
  shows "stepped lr0 w0 0 self"
  using assms
  by (auto simp: init_def subscript_def stepped_def bind_def Adam_def split: option.splits)

lemma step_stepped:
  assumes "stepped lr0 w0 n self"
    and "lr0 ''encoder'' = Some be" "lr0 ''decoder'' = Some bd"
    and "in_float_range be" "in_float_range bd"
    and "w0 ''encoder'' = Some we" "w0 ''decoder'' = Some wd"
    and "usable_warmup we" "usable_warmup wd"
    and "real (Suc n) \<le> float_max"
  shows "\<exists>self'. step self = Inr self' \<and> stepped lr0 w0 (Suc n) self'"
proof -
  obtain a1 a2 where os: "optimizers self = [(''encoder'', a1), (''decoder'', a2)]"
    using assms(1) by (auto simp: stepped_def map_eq_Cons_conv)
  show ?thesis using assms os
    by (simp add: step_def step_stack_def update_rate_ok stepped_def adam_step_def)
qed

lemma step_n_stepped:
  assumes "stepped lr0 w0 k self"
    and "lr0 ''encoder'' = Some be" "lr0 ''decoder'' = Some bd"
    and "in_float_range be" "in_float_range bd"
    and "w0 ''encoder'' = Some we" "w0 ''decoder'' = Some wd"
    and "usable_warmup we" "usable_warmup wd"
    and "real (k + n) \<le> float_max"
  shows "\<exists>self'. step_n n self = Inr self' \<and> stepped lr0 w0 (k + n) self'"
  using assms(1,10)
proof (induction n arbitrary: k self)
  case 0
  then show ?case by simp
next
  case (Suc n)
  have "real (Suc k) \<le> float_max" using Suc.prems(2) by simp
  then obtain s1 where s1: "step self = Inr s1" "stepped lr0 w0 (Suc k) s1"
    using step_stepped[OF Suc.prems(1) assms(2-9)] by blast
  have "real (Suc k + n) \<le> float_max" using Suc.prems(2) by simp
  from Suc.IH[OF s1(2) this] s1(1) show ?case by simp
qed

text \<open>
  C2, as amended. For every optimizer that \<^verbatim>\<open>__init__\<close> constructs with learning rates
  within the float range and with warm-up lengths that are positive and within the float
  range together with their power \<^verbatim>\<open>w ** (-1.5)\<close>, and for every \<open>n \<ge> 1\<close> within the
  float range: \<open>n\<close> calls of \<^verbatim>\<open>step()\<close> all return, the shared counter then equals \<open>n\<close>,
  and the current learning rate of each group is its base rate times
  \<open>min (n powr -0.5) (n * warmup powr -1.5)\<close>; the parameter groups of the group's Adam
  optimizer carry the same rate, and each Adam optimizer has stepped \<open>n\<close> times. The first
  call evaluates the formula at counter 1.
\<close>

theorem step_n_counter_and_rates:
  assumes "init m lr0 w0 = Inr self"
    and "lr0 ''encoder'' = Some be" and "lr0 ''decoder'' = Some bd"
    and "in_float_range be" and "in_float_range bd"
    and "w0 ''encoder'' = Some we" and "w0 ''decoder'' = Some wd"
    and "usable_warmup we" and "usable_warmup wd"
    and "1 \<le> n" and "real n \<le> float_max"
  shows "\<exists>self'. step_n n self = Inr self' \<and> step_counter self' = n \<and>
           current_learning_rates self' ''encoder'' =
             Some (be * min (real n powr (- 0.5)) (real n * we powr (- 1.5))) \<and>
           current_learning_rates self' ''decoder'' =
             Some (bd * min (real n powr (- 0.5)) (real n * wd powr (- 1.5))) \<and>
           map (\<lambda>(stack, a). (stack, param_group_lr a, n_updates a)) (optimizers self') =
             [(''encoder'', be * min (real n powr (- 0.5)) (real n * we powr (- 1.5)), n),
              (''decoder'', bd * min (real n powr (- 0.5)) (real n * wd powr (- 1.5)), n)]"
proof -
  have "real (0 + n) \<le> float_max" using assms(11) by simp
  then obtain self' where s: "step_n n self = Inr self'" "stepped lr0 w0 (0 + n) self'"
    using step_n_stepped[OF init_stepped[OF assms(1)] assms(2-9)] by blast
  obtain a1 a2 where os: "optimizers self' = [(''encoder'', a1), (''decoder'', a2)]"
    using s(2) by (auto simp: stepped_def map_eq_Cons_conv)
  from s(2) assms(2,3,6,7,10) os show ?thesis
    using s(1) by (simp add: stepped_def schedule_rate_def)
qed

theorem step_n_counter_and_rates_witness:
  "\<exists>self self'. init model0 learning_rates train_warmup_steps = Inr self \<and>
     in_float_range 0.002 \<and> in_float_range 0.1 \<and>
     usable_warmup 20000 \<and> usable_warmup 10000 \<and> real 2 \<le> float_max \<and>
     step_n 2 self = Inr self' \<and> step_counter self' = 2 \<and>
     current_learning_rates self' ''encoder'' =
       Some (0.002 * min (2 powr (- 0.5)) (2 * 20000 powr (- 1.5))) \<and>
     current_learning_rates self' ''decoder'' =
       Some (0.1 * min (2 powr (- 0.5)) (2 * 10000 powr (- 1.5))) \<and>
     map (\<lambda>(stack, a). (stack, param_group_lr a, n_updates a)) (optimizers self') =
       [(''encoder'', 0.002 * min (2 powr (- 0.5)) (2 * 20000 powr (- 1.5)), 2),
        (''decoder'', 0.1 * min (2 powr (- 0.5)) (2 * 10000 powr (- 1.5)), 2)]"
proof -
  obtain self where i: "init model0 learning_rates train_warmup_steps = Inr self"
    by (simp add: init_def subscript_def learning_rates_def)
  have l: "learning_rates ''encoder'' = Some 0.002" "learning_rates ''decoder'' = Some 0.1"
    by (simp_all add: learning_rates_def)
  have r: "in_float_range 0.002" "in_float_range 0.1"
    using float_max_ge_one by (simp_all add: in_float_range_def)
  have w: "train_warmup_steps ''encoder'' = Some 20000"
      "train_warmup_steps ''decoder'' = Some 10000"
    by (simp_all add: train_warmup_steps_def)
  have u: "usable_warmup 20000" "usable_warmup 10000"
    by (rule usable_warmup_from_one; simp add: float_max_def)+
  have n: "1 \<le> (2::nat)" "real 2 \<le> float_max"
    by (simp_all add: float_max_def)
  from step_n_counter_and_rates[OF i l r w u n] i r u n show ?thesis
    by simp
qed

text \<open>
  C2 as stated fails: an optimizer constructed with warm-up length 0 raises
  \<^verbatim>\<open>ZeroDivisionError\<close> in its first \<^verbatim>\<open>step()\<close>, at \<^verbatim>\<open>warmup_steps[stack] ** (-1.5)\<close>.
\<close>

theorem step_zero_warmup_counterexample:
  "bind (init model0 learning_rates [''encoder'' \<mapsto> 0, ''decoder'' \<mapsto> 0]) (step_n 1) =
     Inl (ZeroDivisionError ''0.0 cannot be raised to a negative power'')"
  using float_max_ge_one
  by (simp add: init_def subscript_def learning_rates_def step_def step_stack_def
      update_rate_def py_pow_def to_float_def)

text \<open>
  The float range bounds the warm-up lengths from both sides. With the warm-up length
  \<open>2^-700\<close> the power \<^verbatim>\<open>w ** (-1.5)\<close> is \<open>2^1050\<close>, beyond the largest float, and the
  first \<^verbatim>\<open>step()\<close> raises \<^verbatim>\<open>OverflowError\<close>; with the integer \<open>10^400\<close> the
  conversion of the base to a float raises it. It bounds the learning rates and the
  counter in the same way: an integer learning rate beyond the largest float fails in the
  outer product, and a counter beyond it fails in \<^verbatim>\<open>self._step ** (-0.5)\<close>.
\<close>

lemma first_step_raises:
  assumes "py_pow w (- 1.5) = Inl e"
  shows "bind (init model0 learning_rates [''encoder'' \<mapsto> w, ''decoder'' \<mapsto> w]) (step_n 1) =
           Inl e"
proof -
  have "py_pow (real (Suc 0)) (- 0.5) = Inr (PyFloat (real (Suc 0) powr (- 0.5)))"
    by (rule py_pow_counter) (simp_all add: float_max_ge_one)
  then show ?thesis
    using assms
    by (simp add: init_def subscript_def learning_rates_def step_def step_stack_def
        update_rate_def)
qed

lemma py_pow_overflow:
  assumes "0 < b" "b \<le> float_max" "float_max < b powr e"
  shows "py_pow b e = Inl (OverflowError ''Numerical result out of range'')"
  using assms by (simp add: py_pow_def to_float_def)

lemma py_pow_too_large:
  assumes "float_max < \<bar>b\<bar>"
  shows "py_pow b e = Inl (OverflowError ''int too large to convert to float'')"
  using assms by (simp add: py_pow_def to_float_def)

lemma tiny_warmup_power: "(1 / 2 ^ 700 :: real) powr (- 1.5) = 2 ^ 1050"
proof -
  have p700: "(2::real) powr 700 = 2 ^ 700" by (rule powr_numeral) simp
  have p1050: "(2::real) powr 1050 = 2 ^ 1050" by (rule powr_numeral) simp
  have "(1 / 2 ^ 700 :: real) powr (- 1.5) = (2 powr (- 700)) powr (- 1.5)"
    by (simp only: powr_minus_divide p700)
  also have "\<dots> = 2 powr ((- 700) * (- 1.5))" by (rule powr_powr)
  also have "(- 700) * (- 1.5) = (1050::real)" by simp
  finally show ?thesis by (simp only: p1050)
qed

lemma step_tiny_warmup_overflows:
  "bind (init model0 learning_rates [''encoder'' \<mapsto> 1 / 2 ^ 700, ''decoder'' \<mapsto> 1 / 2 ^ 700])
     (step_n 1) = Inl (OverflowError ''Numerical result out of range'')"
proof (rule first_step_raises, rule py_pow_overflow)
  show "(0 :: real) < 1 / 2 ^ 700" by simp
  show "(1 / 2 ^ 700 :: real) \<le> float_max"
    using float_max_ge_one by (simp add: divide_le_eq)
  have "float_max < (2 ^ 1050 :: real)" by (simp add: float_max_def)
  then show "float_max < (1 / 2 ^ 700 :: real) powr (- 1.5)"
    by (simp only: tiny_warmup_power)
qed

lemma step_huge_warmup_overflows:
  "bind (init model0 learning_rates [''encoder'' \<mapsto> 10 ^ 400, ''decoder'' \<mapsto> 10 ^ 400])
     (step_n 1) = Inl (OverflowError ''int too large to convert to float'')"
proof (rule first_step_raises, rule py_pow_too_large)
  show "float_max < \<bar>10 ^ 400 :: real\<bar>" by (simp add: float_max_def)
qed

lemma update_rate_huge_rate:
  assumes "lr self stack = Some b" "float_max < \<bar>b\<bar>"
    and "warmup_steps self stack = Some w" "usable_warmup w"
    and "0 < step_counter self" "real (step_counter self) \<le> float_max"
  shows "update_rate self stack = Inl (OverflowError ''int too large to convert to float'')"
proof -
  have 1: "subscript (lr self) stack = Inr b" "subscript (warmup_steps self) stack = Inr w"
    using assms by (simp_all add: subscript_def)
  have 2: "to_float b = Inl (OverflowError ''int too large to convert to float'')"
    using assms(2) by (simp add: to_float_def)
  show ?thesis
    unfolding update_rate_def
    by (simp only: 1 2 bind_Inr bind_Inl py_pow_counter[OF assms(5,6)]
        py_pow_warmup[OF assms(4)] py_min_counter[OF assms(5)])
qed

lemma update_rate_huge_counter:
  assumes "lr self stack = Some b" and "float_max < real (step_counter self)"
  shows "update_rate self stack = Inl (OverflowError ''int too large to convert to float'')"
  using assms by (simp add: update_rate_def subscript_def py_pow_def to_float_def)

section \<open>Properties of the training loop\<close>

lemma init_train_ok:
  "init m learning_rates train_warmup_steps =
     Inr \<lparr>encoder = model_encoder m, decoder = model_decoder m, lr = learning_rates,
          warmup_steps = train_warmup_steps,
          optimizers = [(''encoder'', Adam 0.002), (''decoder'', Adam 0.1)],
          step_counter = 0, current_learning_rates = Map.empty\<rparr>"
  by (simp add: init_def subscript_def learning_rates_def)

text \<open>
  C3. With \<^verbatim>\<open>max_steps = 5\<close>, \<^verbatim>\<open>gradient_accumulation_steps = 2\<close>, 20 examples and
  batch size 2 the data loader has 10 batches, the schedule overwrites the number of
  epochs with \<open>5 div (10 div 2 + 1) = 0\<close>, and the loop body never runs, whatever number
  of epochs \<open>e\<close> was configured: no batch is processed, \<^verbatim>\<open>optimizer.step()\<close> is never
  called, the global step stays 0, and the \<^verbatim>\<open>return\<close> raises
  \<^verbatim>\<open>ZeroDivisionError\<close>. The code does not perform the 5 steps of the claim.
\<close>

theorem train_max_steps_5:
  "(\<exists>s. train_loop (a\<lparr>max_steps := 5, gradient_accumulation_steps := 2,
                       per_gpu_train_batch_size := 2, n_gpu := 1, num_train_epochs := e\<rparr>)
            m 20 losses = Inr s
        \<and> global_step s = 0 \<and> step_counter (optimizer s) = 0 \<and> n_batches s = 0) \<and>
   train (a\<lparr>max_steps := 5, gradient_accumulation_steps := 2,
            per_gpu_train_batch_size := 2, n_gpu := 1, num_train_epochs := e\<rparr>)
      m 20 losses = Inl (ZeroDivisionError ''float division by zero'')"
  by (simp add: train_def train_loop_def random_sampler_def len_dataloader_def
      training_schedule_def floordiv_def init_train_ok truediv_def model_zero_grad_def)

lemma process_batch_no_step:
  assumes "0 < gradient_accumulation_steps a" "int step_idx + 1 < gradient_accumulation_steps a"
  shows "\<exists>s'. process_batch a losses step_idx s = Inr s' \<and> global_step s' = global_step s
          \<and> optimizer s' = optimizer s"
  using assms by (simp add: process_batch_def pymod_def Let_def)

lemma run_batches_no_step:
  assumes "0 < gradient_accumulation_steps a"
    and "int step_idx + int remaining < gradient_accumulation_steps a"
    and "global_step s = 0"
  shows "\<exists>s'. run_batches a losses remaining step_idx s = Inr s' \<and> global_step s' = 0
          \<and> optimizer s' = optimizer s"
  using assms(2,3)
proof (induction remaining arbitrary: step_idx s)
  case 0
  then show ?case by simp
next
  case (Suc remaining)
  obtain s1 where s1: "process_batch a losses step_idx s = Inr s1" "global_step s1 = global_step s"
      "optimizer s1 = optimizer s"
    using process_batch_no_step[of a step_idx losses s] assms(1) Suc.prems by auto
  have np: "\<not> past_max_steps a s1" using s1 Suc.prems by (simp add: past_max_steps_def)
  have "int (Suc step_idx) + int remaining < gradient_accumulation_steps a"
    using Suc.prems by simp
  from Suc.IH[OF this, of s1] s1 Suc.prems np show ?case by simp
qed

lemma run_epochs_no_step:
  assumes "0 < gradient_accumulation_steps a"
    and "int len_loader < gradient_accumulation_steps a"
    and "global_step s = 0"
  shows "\<exists>s'. run_epochs a losses len_loader epochs s = Inr s' \<and> global_step s' = 0
          \<and> optimizer s' = optimizer s"
  using assms(3)
proof (induction epochs arbitrary: s)
  case 0
  then show ?case by simp
next
  case (Suc epochs)
  obtain s1 where s1: "run_batches a losses len_loader 0 s = Inr s1" "global_step s1 = 0"
     "optimizer s1 = optimizer s"
    using run_batches_no_step[of a 0 len_loader s losses] assms(1,2) Suc.prems by auto
  have np: "\<not> past_max_steps a s1" using s1 by (simp add: past_max_steps_def)
  from Suc.IH[OF s1(2)] s1 np show ?case by simp
qed

lemma resume_loops_Suc:
  "resume_loops a losses len_loader epochs (Suc remaining) step_idx s =
     bind (process_batch a losses step_idx s) (\<lambda>s'.
       if past_max_steps a s' then Inr s'
       else resume_loops a losses len_loader epochs remaining (Suc step_idx) s')"
  by (cases "process_batch a losses step_idx s") (simp_all add: resume_loops_def)

lemma run_epochs_resume:
  "run_epochs a losses len_loader (Suc epochs) s =
     resume_loops a losses len_loader epochs len_loader 0 s"
  by (simp add: resume_loops_def)

lemma process_batch_at_most_one:
  assumes "process_batch a losses i s = Inr s'"
  shows "global_step s' \<le> global_step s + 1"
  using assms
  by (cases "step (optimizer s)")
    (auto simp: process_batch_def pymod_def Let_def split: if_splits)

lemma run_batches_at_most_one_past:
  assumes "run_batches a losses r i s = Inr s'" and "0 < max_steps a"
    and "global_step s \<le> max_steps a"
  shows "global_step s' \<le> max_steps a + 1"
  using assms(1,3)
proof (induction r arbitrary: i s)
  case 0
  then show ?case by simp
next
  case (Suc r)
  obtain s1 where s1: "process_batch a losses i s = Inr s1"
    using Suc.prems by (cases "process_batch a losses i s") auto
  have g1: "global_step s1 \<le> max_steps a + 1"
    using process_batch_at_most_one[OF s1] Suc.prems by simp
  show ?case
  proof (cases "past_max_steps a s1")
    case True
    then show ?thesis using Suc.prems s1 g1 by simp
  next
    case False
    then have "global_step s1 \<le> max_steps a" using assms(2) by (simp add: past_max_steps_def)
    moreover have "run_batches a losses r (Suc i) s1 = Inr s'" using Suc.prems s1 False by simp
    ultimately show ?thesis using Suc.IH by blast
  qed
qed

lemma run_epochs_at_most_one_past:
  assumes "run_epochs a losses len_loader epochs s = Inr s'" and "0 < max_steps a"
    and "global_step s \<le> max_steps a"
  shows "global_step s' \<le> max_steps a + 1"
  using assms(1,3)
proof (induction epochs arbitrary: s)
  case 0
  then show ?case by simp
next
  case (Suc epochs)
  obtain s1 where s1: "run_batches a losses len_loader 0 s = Inr s1"
    using Suc.prems by (cases "run_batches a losses len_loader 0 s") auto
  have g1: "global_step s1 \<le> max_steps a + 1"
    using run_batches_at_most_one_past[OF s1 assms(2)] Suc.prems by simp
  show ?case
  proof (cases "past_max_steps a s1")
    case True
    then show ?thesis using Suc.prems s1 g1 by simp
  next
    case False
    then have "global_step s1 \<le> max_steps a" using assms(2) by (simp add: past_max_steps_def)
    moreover have "run_epochs a losses len_loader epochs s1 = Inr s'"
      using Suc.prems s1 False by simp
    ultimately show ?thesis using Suc.IH by blast
  qed
qed

lemma resume_loops_at_most_one_past:
  assumes "resume_loops a losses len_loader epochs r i s = Inr s'" and "0 < max_steps a"
    and "global_step s \<le> max_steps a"
  shows "global_step s' \<le> max_steps a + 1"
proof -
  obtain s1 where s1: "run_batches a losses r i s = Inr s1"
    using assms(1) by (cases "run_batches a losses r i s") (auto simp: resume_loops_def)
  have g1: "global_step s1 \<le> max_steps a + 1"
    using run_batches_at_most_one_past[OF s1 assms(2,3)] .
  show ?thesis
  proof (cases "past_max_steps a s1")
    case True
    then show ?thesis using assms(1) s1 g1 by (simp add: resume_loops_def)
  next
    case False
    then have "global_step s1 \<le> max_steps a" using assms(2) by (simp add: past_max_steps_def)
    moreover have "run_epochs a losses len_loader epochs s1 = Inr s'"
      using assms(1) s1 False by (simp add: resume_loops_def)
    ultimately show ?thesis using run_epochs_at_most_one_past assms(2) by blast
  qed
qed

text \<open>
  The early stop of lines 406 and 419, for the two nested loops taken by themselves. At
  any point (batch \<open>step_idx\<close> of an epoch is next, with further batches of this epoch and
  \<open>epochs\<close> further epochs still to come): if processing this batch takes the global step
  beyond a positive \<^verbatim>\<open>max_steps\<close>, both loops end at once, in exactly the state \<open>s'\<close>
  reached after this batch. This is what C4 describes. The last subsection of this section
  shows that no run of \<^verbatim>\<open>train\<close> ever gets there, so of the program C4 holds only
  because its condition is never met.
\<close>

lemma early_stop_in_loops:
  assumes "0 < max_steps a"
    and "process_batch a losses step_idx s = Inr s'" and "max_steps a < global_step s'"
  shows "resume_loops a losses len_loader epochs (Suc remaining) step_idx s = Inr s'"
  using assms by (simp add: resume_loops_def past_max_steps_def)

text \<open>
  C9. When the loops of \<^verbatim>\<open>train\<close> end with \<^verbatim>\<open>global_step = 0\<close>, the expression
  \<^verbatim>\<open>tr_loss / global_step\<close> of the \<^verbatim>\<open>return\<close> raises \<^verbatim>\<open>ZeroDivisionError\<close>. Two ways
  to get there, for a dataset of \<open>n > 0\<close> examples (an empty one is refused by the sampler,
  before any loop): \<^verbatim>\<open>max_steps > 0\<close> and the recomputed number of epochs
  \<open>max_steps div (len_loader div gradient_accumulation_steps + 1)\<close> is not positive; or an
  epoch has fewer batches than \<^verbatim>\<open>gradient_accumulation_steps\<close>.
\<close>

theorem train_zero_steps_divides_by_zero:
  "(\<forall>s. train_loop a m n losses = Inr s \<and> global_step s = 0 \<longrightarrow>
        train a m n losses = Inl (ZeroDivisionError ''float division by zero'')) \<and>
   (0 < n \<and>
    len_dataloader n (per_gpu_train_batch_size a * max 1 (n_gpu a)) = Inr len_loader \<and>
    0 < max_steps a \<and> gradient_accumulation_steps a \<noteq> 0 \<and>
    len_loader div gradient_accumulation_steps a + 1 \<noteq> 0 \<and>
    max_steps a div (len_loader div gradient_accumulation_steps a + 1) \<le> 0 \<longrightarrow>
      (\<exists>s. train_loop a m n losses = Inr s \<and> global_step s = 0 \<and> n_batches s = 0) \<and>
      train a m n losses = Inl (ZeroDivisionError ''float division by zero'')) \<and>
   (0 < n \<and>
    len_dataloader n (per_gpu_train_batch_size a * max 1 (n_gpu a)) = Inr len_loader \<and>
    0 < gradient_accumulation_steps a \<and> len_loader < gradient_accumulation_steps a \<longrightarrow>
      (\<exists>s. train_loop a m n losses = Inr s \<and> global_step s = 0) \<and>
      train a m n losses = Inl (ZeroDivisionError ''float division by zero''))"
proof (intro conjI impI allI)
  fix s assume "train_loop a m n losses = Inr s \<and> global_step s = 0"
  then show "train a m n losses = Inl (ZeroDivisionError ''float division by zero'')"
    by (simp add: train_def truediv_def)
next
  assume h: "0 < n \<and>
    len_dataloader n (per_gpu_train_batch_size a * max 1 (n_gpu a)) = Inr len_loader \<and>
    0 < max_steps a \<and> gradient_accumulation_steps a \<noteq> 0 \<and>
    len_loader div gradient_accumulation_steps a + 1 \<noteq> 0 \<and>
    max_steps a div (len_loader div gradient_accumulation_steps a + 1) \<le> 0"
  then have tl: "train_loop a m n losses =
      Inr \<lparr>global_step = 0, tr_loss = 0, logging_loss = 0,
           optimizer = model_zero_grad \<lparr>encoder = model_encoder m, decoder = model_decoder m,
             lr = learning_rates, warmup_steps = train_warmup_steps,
             optimizers = [(''encoder'', Adam 0.002), (''decoder'', Adam 0.1)],
             step_counter = 0, current_learning_rates = Map.empty\<rparr>, n_batches = 0\<rparr>"
    by (simp add: train_loop_def random_sampler_def training_schedule_def floordiv_def
        init_train_ok)
  then show "\<exists>s. train_loop a m n losses = Inr s \<and> global_step s = 0 \<and> n_batches s = 0"
    by simp
  from tl show "train a m n losses = Inl (ZeroDivisionError ''float division by zero'')"
    by (simp add: train_def truediv_def)
next
  assume h: "0 < n \<and>
    len_dataloader n (per_gpu_train_batch_size a * max 1 (n_gpu a)) = Inr len_loader \<and>
    0 < gradient_accumulation_steps a \<and> len_loader < gradient_accumulation_steps a"
  have len0: "0 \<le> len_loader"
    using h by (auto simp: len_dataloader_def split: if_splits intro!: pos_imp_zdiv_nonneg_iff[THEN iffD2])
  have q0: "len_loader div gradient_accumulation_steps a = 0"
    using h len0 by simp
  have g0: "gradient_accumulation_steps a \<noteq> 0" using h by simp
  have "\<exists>a'. training_schedule a len_loader = Inr a' \<and>
          gradient_accumulation_steps a' = gradient_accumulation_steps a"
    by (cases "0 < max_steps a") (simp_all add: training_schedule_def floordiv_def q0 g0)
  then obtain a' where a': "training_schedule a len_loader = Inr a'"
       "gradient_accumulation_steps a' = gradient_accumulation_steps a"
    by blast
  have small: "int (nat len_loader) < gradient_accumulation_steps a'"
    and pos: "0 < gradient_accumulation_steps a'"
    using h len0 a' by simp_all
  define s0 where "s0 = \<lparr>global_step = 0, tr_loss = 0, logging_loss = 0,
           optimizer = model_zero_grad \<lparr>encoder = model_encoder m, decoder = model_decoder m,
             lr = learning_rates, warmup_steps = train_warmup_steps,
             optimizers = [(''encoder'', Adam 0.002), (''decoder'', Adam 0.1)],
             step_counter = 0, current_learning_rates = Map.empty\<rparr>, n_batches = 0\<rparr>"
  have "global_step s0 = 0" by (simp add: s0_def)
  from run_epochs_no_step[OF pos small this, of losses "nat (num_train_epochs a')"]
  obtain s' where "run_epochs a' losses (nat len_loader) (nat (num_train_epochs a')) s0 = Inr s'"
      "global_step s' = 0"
    by blast
  then have tl: "\<exists>s. train_loop a m n losses = Inr s \<and> global_step s = 0"
    using h a' by (simp add: train_loop_def random_sampler_def init_train_ok s0_def)
  then show "\<exists>s. train_loop a m n losses = Inr s \<and> global_step s = 0" .
  from tl show "train a m n losses = Inl (ZeroDivisionError ''float division by zero'')"
    by (auto simp add: train_def truediv_def)
qed

theorem train_zero_steps_divides_by_zero_witness:
  "(0::nat) < 20 \<and> (0::nat) < 4 \<and>
   len_dataloader 20
     (per_gpu_train_batch_size
        (default_args\<lparr>max_steps := 5, gradient_accumulation_steps := 2,
                       per_gpu_train_batch_size := 2\<rparr>)
      * max 1 (n_gpu (default_args\<lparr>max_steps := 5, gradient_accumulation_steps := 2,
                                    per_gpu_train_batch_size := 2\<rparr>))) = Inr 10 \<and>
   train (default_args\<lparr>max_steps := 5, gradient_accumulation_steps := 2,
                        per_gpu_train_batch_size := 2\<rparr>) model0 20 (\<lambda>k. 1)
     = Inl (ZeroDivisionError ''float division by zero'') \<and>
   len_dataloader 4
     (per_gpu_train_batch_size
        (default_args\<lparr>gradient_accumulation_steps := 4, per_gpu_train_batch_size := 2\<rparr>)
      * max 1 (n_gpu (default_args\<lparr>gradient_accumulation_steps := 4,
                                    per_gpu_train_batch_size := 2\<rparr>))) = Inr 2 \<and>
   train (default_args\<lparr>gradient_accumulation_steps := 4, per_gpu_train_batch_size := 2\<rparr>)
      model0 4 (\<lambda>k. 1)
     = Inl (ZeroDivisionError ''float division by zero'')"
  using train_zero_steps_divides_by_zero
          [of "default_args\<lparr>max_steps := 5, gradient_accumulation_steps := 2,
                            per_gpu_train_batch_size := 2\<rparr>" model0 20 "\<lambda>k. 1" 10]
        train_zero_steps_divides_by_zero
          [of "default_args\<lparr>gradient_accumulation_steps := 4,
                            per_gpu_train_batch_size := 2\<rparr>" model0 4 "\<lambda>k. 1" 2]
  by (simp add: default_args_def len_dataloader_def)

subsection \<open>The number of optimizer steps of a run\<close>

lemma div_step:
  fixes i g :: int
  assumes "0 < g"
  shows "(i + 1) div g = i div g + (if (i + 1) mod g = 0 then 1 else 0)"
proof -
  define r where "r = i mod g"
  have r: "0 \<le> r" "r < g" and i: "i = g * (i div g) + r"
    using assms by (simp_all add: r_def)
  show ?thesis
  proof (cases "r + 1 < g")
    case True
    have e: "i + 1 = g * (i div g) + (r + 1)" using i by simp
    have "(i + 1) div g = i div g"
      by (rule int_div_pos_eq[OF e]) (use r True in simp_all)
    moreover have "(i + 1) mod g = r + 1"
      by (rule int_mod_pos_eq[OF e]) (use r True in simp_all)
    ultimately show ?thesis using r by simp
  next
    case False
    then have rg: "r + 1 = g" using r by simp
    have e: "i + 1 = g * (i div g + 1) + 0" using i rg by (simp add: algebra_simps)
    have "(i + 1) div g = i div g + 1"
      by (rule int_div_pos_eq[OF e]) (use assms in simp_all)
    moreover have "(i + 1) mod g = 0"
      by (rule int_mod_pos_eq[OF e]) (use assms in simp_all)
    ultimately show ?thesis by simp
  qed
qed

lemma process_batch_global_step:
  assumes "process_batch a losses i s = Inr s'" and "0 < gradient_accumulation_steps a"
  shows "global_step s' =
           global_step s + (if (int i + 1) mod gradient_accumulation_steps a = 0 then 1 else 0)"
  using assms
  by (cases "step (optimizer s)")
    (auto simp: process_batch_def pymod_def Let_def split: if_splits)

lemma run_batches_global_step:
  assumes "run_batches a losses r i s = Inr s'" and "0 < gradient_accumulation_steps a"
  shows "global_step s' \<le> global_step s
           + ((int i + int r) div gradient_accumulation_steps a
              - int i div gradient_accumulation_steps a)"
  using assms(1)
proof (induction r arbitrary: i s)
  case 0
  then show ?case by simp
next
  case (Suc r)
  let ?g = "gradient_accumulation_steps a"
  obtain s1 where s1: "process_batch a losses i s = Inr s1"
    using Suc.prems by (cases "process_batch a losses i s") auto
  have g1: "global_step s1 = global_step s + ((int i + 1) div ?g - int i div ?g)"
    using process_batch_global_step[OF s1 assms(2)] div_step[OF assms(2), of "int i"]
    by simp
  have mono: "(int i + 1) div ?g \<le> (int i + int (Suc r)) div ?g"
    using assms(2) by (intro zdiv_mono1) simp_all
  show ?case
  proof (cases "past_max_steps a s1")
    case True
    then have "s' = s1" using Suc.prems s1 by simp
    then show ?thesis using g1 mono by simp
  next
    case False
    then have "run_batches a losses r (Suc i) s1 = Inr s'" using Suc.prems s1 by simp
    from Suc.IH[OF this] g1 show ?thesis by (simp add: algebra_simps)
  qed
qed

lemma run_epochs_global_step:
  assumes "run_epochs a losses len_loader epochs s = Inr s'"
    and "0 < gradient_accumulation_steps a"
  shows "global_step s' \<le> global_step s
           + int epochs * (int len_loader div gradient_accumulation_steps a)"
  using assms(1)
proof (induction epochs arbitrary: s)
  case 0
  then show ?case by simp
next
  case (Suc epochs)
  obtain s1 where s1: "run_batches a losses len_loader 0 s = Inr s1"
    using Suc.prems by (cases "run_batches a losses len_loader 0 s") auto
  have g1: "global_step s1 \<le> global_step s + int len_loader div gradient_accumulation_steps a"
    using run_batches_global_step[OF s1 assms(2)] by simp
  have nn: "0 \<le> int len_loader div gradient_accumulation_steps a"
    using assms(2) by (simp add: pos_imp_zdiv_nonneg_iff)
  show ?case
  proof (cases "past_max_steps a s1")
    case True
    then have "s' = s1" using Suc.prems s1 by simp
    moreover have "0 \<le> int epochs * (int len_loader div gradient_accumulation_steps a)"
      using nn by simp
    ultimately show ?thesis using g1 by (simp add: algebra_simps)
  next
    case False
    then have "run_epochs a losses len_loader epochs s1 = Inr s'" using Suc.prems s1 by simp
    from Suc.IH[OF this] g1 show ?thesis by (simp add: algebra_simps)
  qed
qed

lemma run_epochs_no_batches: "run_epochs a losses 0 epochs s = Inr s"
  by (induction epochs) auto

lemma steps_below_cap:
  fixes ms q :: int
  assumes "0 < ms" "0 \<le> q"
  shows "(ms div (q + 1)) * q < ms"
proof -
  define x where "x = ms div (q + 1)"
  have x0: "0 \<le> x" using assms by (simp add: x_def pos_imp_zdiv_nonneg_iff)
  have "(q + 1) * x + ms mod (q + 1) = ms" by (simp add: x_def)
  moreover have "0 \<le> ms mod (q + 1)" using assms by simp
  ultimately have le: "(q + 1) * x \<le> ms" by linarith
  show ?thesis
  proof (cases "x = 0")
    case True
    then show ?thesis using assms by (simp add: x_def[symmetric])
  next
    case False
    then have "0 < x" using x0 by simp
    then have "x * q < (q + 1) * x" by (simp add: algebra_simps)
    then show ?thesis using le by (simp add: x_def[symmetric])
  qed
qed

text \<open>
  With \<^verbatim>\<open>max_steps > 0\<close>, a run of \<^verbatim>\<open>train\<close> that reaches its \<^verbatim>\<open>return\<close> has
  taken fewer than \<^verbatim>\<open>max_steps\<close> optimizer steps: an epoch takes at most
  \<open>len_loader div gradient_accumulation_steps\<close> steps, and the schedule allows
  \<open>max_steps div (len_loader div gradient_accumulation_steps + 1)\<close> epochs. So within
  \<^verbatim>\<open>train\<close> the early stop of lines 406 and 419 never fires.
\<close>

lemma train_loop_below_max_steps:
  assumes "train_loop a m n losses = Inr s" and "0 < max_steps a"
  shows "global_step s < max_steps a"
proof -
  let ?g = "gradient_accumulation_steps a"
  let ?bs = "per_gpu_train_batch_size a * max 1 (n_gpu a)"
  have n: "random_sampler n = Inr n"
    using assms(1) by (auto simp: train_loop_def random_sampler_def split: if_splits)
  obtain len where len: "len_dataloader n ?bs = Inr len"
    using assms(1) n by (cases "len_dataloader n ?bs") (auto simp: train_loop_def)
  have len0: "0 \<le> len"
    using len by (auto simp: len_dataloader_def pos_imp_zdiv_nonneg_iff split: if_splits)
  obtain a' where a': "training_schedule a len = Inr a'"
    using assms(1) n len by (cases "training_schedule a len") (auto simp: train_loop_def)
  have g0: "?g \<noteq> 0" and q1: "len div ?g + 1 \<noteq> 0"
    and e: "a' = a\<lparr>num_train_epochs := max_steps a div (len div ?g + 1)\<rparr>"
    using a' assms(2) by (auto simp: training_schedule_def floordiv_def split: if_splits)
  let ?s0 = "\<lparr>global_step = 0, tr_loss = 0, logging_loss = 0,
           optimizer = model_zero_grad \<lparr>encoder = model_encoder m, decoder = model_decoder m,
             lr = learning_rates, warmup_steps = train_warmup_steps,
             optimizers = [(''encoder'', Adam 0.002), (''decoder'', Adam 0.1)],
             step_counter = 0, current_learning_rates = Map.empty\<rparr>, n_batches = 0\<rparr>"
  have run: "run_epochs a' losses (nat len) (nat (num_train_epochs a')) ?s0 = Inr s"
    using assms(1) n len a' by (simp add: train_loop_def init_train_ok)
  show ?thesis
  proof (cases "0 < ?g")
    case True
    then have g': "0 < gradient_accumulation_steps a'" by (simp add: e)
    have q: "0 \<le> len div ?g" using True len0 by (simp add: pos_imp_zdiv_nonneg_iff)
    have x: "0 \<le> max_steps a div (len div ?g + 1)"
      using q assms(2) by (simp add: pos_imp_zdiv_nonneg_iff)
    have "global_step s \<le> int (nat (num_train_epochs a')) * (int (nat len) div ?g)"
      using run_epochs_global_step[OF run g'] by (simp add: e)
    also have "\<dots> = (max_steps a div (len div ?g + 1)) * (len div ?g)"
      using x len0 by (simp add: e)
    also have "\<dots> < max_steps a" by (rule steps_below_cap[OF assms(2) q])
    finally show ?thesis .
  next
    case False
    then have neg: "?g < 0" using g0 by simp
    have q: "len div ?g \<le> 0" using neg len0 by (simp add: div_nonneg_neg_le0)
    show ?thesis
    proof (cases "len div ?g = 0")
      case True
      have "len = 0"
      proof (rule ccontr)
        assume "len \<noteq> 0"
        then have "0 < len" using len0 by simp
        then have "len div ?g < 0" using neg by (simp add: neg_imp_zdiv_neg_iff)
        then show False using True by simp
      qed
      then have "s = ?s0" using run by (simp add: run_epochs_no_batches)
      then show ?thesis using assms(2) by simp
    next
      case False
      then have "len div ?g + 1 < 0" using q q1 by simp
      then have "max_steps a div (len div ?g + 1) < 0"
        using assms(2) by (simp add: neg_imp_zdiv_neg_iff)
      then have "nat (num_train_epochs a') = 0" by (simp add: e)
      then have "s = ?s0" using run by simp
      then show ?thesis using assms(2) by simp
    qed
  qed
qed

section \<open>Properties of the device setup\<close>

text \<open>
  C7. Without \<^verbatim>\<open>--to_cpu\<close> and without \<^verbatim>\<open>--local_rank\<close>, on a machine where
  \<^verbatim>\<open>torch.cuda.is_available()\<close> would return false and no device is counted, the setup
  selects the device \<^verbatim>\<open>cuda\<close>, not \<^verbatim>\<open>cpu\<close>: the condition tests the function object,
  which is true.
\<close>

theorem setup_devices_without_cuda:
  "args_device (setup_devices (a\<lparr>to_cpu := False, local_rank := - 1\<rparr>)
                  \<lparr>is_available_result = False, device_count = 0\<rparr>) = Cuda None \<and>
   n_gpu (setup_devices (a\<lparr>to_cpu := False, local_rank := - 1\<rparr>)
            \<lparr>is_available_result = False, device_count = 0\<rparr>) = 0"
  by (simp add: setup_devices_def is_available_def)

theorem setup_devices_without_cuda_witness:
  "args_device (setup_devices (default_args\<lparr>to_cpu := False, local_rank := - 1\<rparr>)
                  \<lparr>is_available_result = False, device_count = 0\<rparr>) = Cuda None \<and>
   n_gpu (setup_devices (default_args\<lparr>to_cpu := False, local_rank := - 1\<rparr>)
            \<lparr>is_available_result = False, device_count = 0\<rparr>) = 0"
  using setup_devices_without_cuda[of default_args] by simp


section \<open>Properties of the batch assembler\<close>

lemma length_fit_to_block_size [simp]:
  "length (fit_to_block_size sequence block_size pad) = block_size"
  by (simp add: fit_to_block_size_def)

lemma torch_tensor_same_length:
  assumes "\<forall>r \<in> set rows. length r = n"
  shows "torch_tensor rows = Inr rows"
proof (cases rows)
  case Nil
  then show ?thesis by (simp add: torch_tensor_def)
next
  case (Cons r rs)
  then have "length (hd rows) = n" using assms by simp
  then show ?thesis using assms by (simp add: torch_tensor_def)
qed

lemma collate_result:
  "collate data tok u block_size =
     Inr \<lparr>stories = map (fst \<circ> fitted tok block_size) (filter (\<lambda>x. \<not> has_empty_side x) data),
          summaries = map (snd \<circ> fitted tok block_size) (filter (\<lambda>x. \<not> has_empty_side x) data),
          encoder_token_type_ids =
            compute_token_type_ids u
              (map (fst \<circ> fitted tok block_size) (filter (\<lambda>x. \<not> has_empty_side x) data))
              (cls_token_id tok),
          encoder_mask =
            build_mask (map (fst \<circ> fitted tok block_size) (filter (\<lambda>x. \<not> has_empty_side x) data))
              (pad_token_id tok),
          decoder_mask =
            build_mask (map (snd \<circ> fitted tok block_size) (filter (\<lambda>x. \<not> has_empty_side x) data))
              (pad_token_id tok),
          lm_labels =
            build_lm_labels (map (snd \<circ> fitted tok block_size) (filter (\<lambda>x. \<not> has_empty_side x) data))
              (pad_token_id tok)\<rparr>"
proof -
  let ?kept = "filter (\<lambda>x. \<not> has_empty_side x) data"
  let ?d3 = "map (\<lambda>(story, summary).
                     (fit_to_block_size story block_size (pad_token_id tok),
                      fit_to_block_size summary block_size (pad_token_id tok)))
               (map (\<lambda>(story, summary). encode_for_summarization story summary tok) ?kept)"
  have d3: "?d3 = map (fitted tok block_size) ?kept"
    by (simp add: fitted_def case_prod_beta)
  have t1: "torch_tensor (map fst ?d3) = Inr (map (fst \<circ> fitted tok block_size) ?kept)"
    unfolding d3 by (simp add: torch_tensor_same_length[where n = block_size] fitted_def)
  have t2: "torch_tensor (map snd ?d3) = Inr (map (snd \<circ> fitted tok block_size) ?kept)"
    unfolding d3 by (simp add: torch_tensor_same_length[where n = block_size] fitted_def)
  show ?thesis
    unfolding collate_def Let_def t1 t2 by simp
qed

lemma length_kept:
  "length (filter (\<lambda>x. \<not> P x) xs) = length xs - length (filter P xs)"
  using sum_length_filter_compl[of P xs] by simp





text \<open>
  C5, as amended. If every pair of the input has an empty side, \<^verbatim>\<open>collate\<close> raises
  nothing: it returns the batch whose six tensors have no rows.
\<close>

theorem collate_all_filtered_returns_empty_batch:
  assumes "\<forall>x \<in> set data. has_empty_side x"
  shows "collate data tok u block_size =
           Inr \<lparr>stories = [], summaries = [], encoder_token_type_ids = [],
                encoder_mask = [], decoder_mask = [], lm_labels = []\<rparr>"
proof -
  have "filter (\<lambda>x. \<not> has_empty_side x) data = []" using assms by (simp add: filter_empty_conv)
  then show ?thesis
    by (simp add: collate_result compute_token_type_ids_def build_mask_def build_lm_labels_def)
qed

theorem collate_all_filtered_returns_empty_batch_witness:
  "(has_empty_side ([], [''a'']) \<and> has_empty_side ([''b''], [])) \<and>
   collate [([], [''a'']), ([''b''], [])] char_tokenizer char_utils 8 =
     Inr \<lparr>stories = [], summaries = [], encoder_token_type_ids = [],
          encoder_mask = [], decoder_mask = [], lm_labels = []\<rparr>"
  using collate_all_filtered_returns_empty_batch
    [of "[([], [''a'']), ([''b''], [])]" char_tokenizer char_utils 8]
  by (simp add: has_empty_side_def)

text \<open>
  C5 as stated fails: on a list whose only pair has an empty story, \<^verbatim>\<open>collate\<close>
  returns a batch, and no error.
\<close>

theorem collate_empty_batch_counterexample:
  "collate [([], [''a''])] char_tokenizer char_utils 8 =
     Inr \<lparr>stories = [], summaries = [], encoder_token_type_ids = [],
          encoder_mask = [], decoder_mask = [], lm_labels = []\<rparr>"
  by (simp add: collate_result has_empty_side_def compute_token_type_ids_def build_mask_def
      build_lm_labels_def)

section \<open>Properties of \<^verbatim>\<open>decode_summary\<close>\<close>

lemma split_on_nonempty: "split_on c xs \<noteq> []"
  by (induction xs) (auto split: list.splits)

lemma split_on_append:
  "split_on c (xs @ c # ys) = split_on c xs @ split_on c ys"
proof (induction xs)
  case Nil
  then show ?case by simp
next
  case (Cons x xs)
  obtain y rest where "split_on c xs = y # rest"
    using split_on_nonempty[of c xs] by (cases "split_on c xs") auto
  with Cons show ?case by simp
qed








lemma split_on_without_separator:
  assumes "c \<notin> set xs"
  shows "split_on c xs = [xs]"
  using assms by (induction xs) auto

lemma split_on_join:
  assumes "xs \<noteq> []" "\<forall>f \<in> set xs. c \<notin> set f"
  shows "split_on c (join [c] xs) = xs"
  using assms
proof (induction "[c]" xs rule: join.induct)
  case 1
  then show ?case by simp
next
  case (2 x)
  then show ?case by (simp add: split_on_without_separator)
next
  case (3 x y ys)
  have "split_on c (join [c] (x # y # ys)) = split_on c x @ split_on c (join [c] (y # ys))"
    using split_on_append[of c x "join [c] (y # ys)"] by simp
  then show ?case using 3 by (simp add: split_on_without_separator)
qed



text \<open>
  These properties leave no choice: a list with them is the list that
  \<^verbatim>\<open>decode_summary\<close> returns. For an empty decoded text it is the single element
  \<^verbatim>\<open>"."\<close>.
\<close>

lemma decode_summary_unique:
  assumes "ds \<noteq> []"
    and "\<forall>s \<in> set ds. s \<noteq> [] \<and> last s = CHR ''.'' \<and> CHR ''.'' \<notin> set (butlast s)"
    and "join ''.'' (map butlast ds) = decode tok summary_tokens"
  shows "ds = decode_summary summary_tokens tok"
proof -
  have "split_on CHR ''.'' (join ''.'' (map butlast ds)) = map butlast ds"
    using assms(1,2) by (intro split_on_join) auto
  then have "decode_summary summary_tokens tok = map (\<lambda>s. butlast s @ ''.'') ds"
    by (simp add: decode_summary_def assms(3)[symmetric] o_def)
  also have "\<dots> = map (\<lambda>s. s) ds"
    using assms(2) by (intro map_cong refl) (metis append_butlast_last_id)
  finally show ?thesis by simp
qed

lemma decode_summary_empty_text:
  assumes "decode tok summary_tokens = []"
  shows "decode_summary summary_tokens tok = [''.'']"
  using assms by (simp add: decode_summary_def)

section \<open>Properties of the evaluation driver\<close>

lemma digit_value_digit_char:
  assumes "d < 10"
  shows "digit_value (digit_char d) = d"
proof -
  from assms have "d \<in> {0, 1, 2, 3, 4, 5, 6, 7, 8, 9}" by auto
  then show ?thesis
    by (auto simp: digit_value_def digit_char_def)
qed

lemma decimal_value_format_nat: "decimal_value (format_nat n) = n"
proof (induction n rule: format_nat.induct)
  case (1 n)
  show ?case
  proof (cases "n < 10")
    case True
    then show ?thesis
      by (simp add: decimal_value_def digit_value_digit_char format_nat.simps[of n])
  next
    case False
    then have "decimal_value (format_nat (n div 10)) = n div 10" using 1 by simp
    moreover have "format_nat n = format_nat (n div 10) @ [digit_char (n mod 10)]"
      using False by (simp add: format_nat.simps[of n])
    ultimately show ?thesis
      by (simp add: decimal_value_def digit_value_digit_char)
  qed
qed

lemma format_nat_inj: "format_nat i = format_nat j \<Longrightarrow> i = j"
  by (metis decimal_value_format_nat)

lemma summary_path_inj:
  assumes "summary_path d i = summary_path d j"
  shows "i = j"
proof -
  have "format_nat i = format_nat j"
    using assms by (simp add: summary_path_def path_join_def split: if_splits)
  then show ?thesis by (rule format_nat_inj)
qed

lemma map_result_ok:
  assumes "\<forall>x \<in> set xs. \<exists>y. f x = Inr y"
  shows "\<exists>ys. map_result f xs = Inr ys \<and> length ys = length xs"
  using assms
proof (induction xs)
  case Nil
  then show ?case by simp
next
  case (Cons x xs)
  then obtain y ys where "f x = Inr y" "map_result f xs = Inr ys" "length ys = length xs"
    by auto
  then show ?case by simp
qed

lemma map_result_nth:
  assumes "map_result f xs = Inr ys" "i < length xs"
  shows "f (xs ! i) = Inr (ys ! i)"
  using assms
proof (induction xs arbitrary: ys i)
  case Nil
  then show ?case by simp
next
  case (Cons x xs)
  then show ?case
    by (cases "f x"; cases "map_result f xs"; cases i) auto
qed

lemma best_from_bound:
  assumes "best_i < i"
  shows "best_from best_i best_v i xs < i + length xs"
  using assms
proof (induction xs arbitrary: best_i best_v i)
  case Nil
  then show ?case by simp
next
  case (Cons x xs)
  have "best_from i x (Suc i) xs < Suc i + length xs" by (rule Cons.IH) simp
  moreover have "best_from best_i best_v (Suc i) xs < Suc i + length xs"
    by (rule Cons.IH) (use Cons.prems in simp)
  ultimately show ?case by simp
qed

lemma best_index_ok:
  assumes "xs \<noteq> []"
  shows "\<exists>k. best_index xs = Inr k \<and> k < length xs"
proof -
  obtain x rest where xs: "xs = x # rest" using assms by (cases xs) auto
  have "best_from 0 x 1 rest < 1 + length rest" by (rule best_from_bound) simp
  then show ?thesis by (simp add: best_index_def xs)
qed

lemma summarize_ok:
  assumes "well_formed_beam beam"
  shows "\<exists>ts. summarize beam source tti am = Inr ts \<and> length ts = length source"
proof -
  obtain results where r: "beam source tti am = Inr results"
      "length (scores results) = length source"
      "length (predictions results) = length source"
      "\<forall>i < length source. scores results ! i \<noteq> [] \<and>
           length (predictions results ! i) = length (scores results ! i)"
    using assms unfolding well_formed_beam_def by blast
  have "\<exists>k. bind (index (scores results) i) best_index = Inr k"
    if lt: "i < length source" for i
  proof -
    obtain k where "best_index (scores results ! i) = Inr k"
      using best_index_ok[of "scores results ! i"] r(4) lt by blast
    then show ?thesis using lt r(2) by (simp add: index_def)
  qed
  then have "\<forall>i \<in> set [0..<length source].
          \<exists>k. bind (index (scores results) i) best_index = Inr k"
    by simp
  then obtain best where b: "map_result (\<lambda>i. bind (index (scores results) i) best_index)
        [0..<length source] = Inr best" "length best = length source"
    using map_result_ok[of "[0..<length source]"
        "\<lambda>i. bind (index (scores results) i) best_index"] by auto
  have bk: "best ! i < length (predictions results ! i)" if lt: "i < length source" for i
  proof -
    have "bind (index (scores results) i) best_index = Inr (best ! i)"
      using map_result_nth[OF b(1), of i] lt by simp
    then have "best_index (scores results ! i) = Inr (best ! i)"
      using lt r by (simp add: index_def)
    moreover obtain k where "best_index (scores results ! i) = Inr k"
        "k < length (scores results ! i)"
      using best_index_ok[of "scores results ! i"] r(4) lt by blast
    ultimately show ?thesis using r(4) lt by auto
  qed
  have "\<forall>x \<in> set (zip [0..<length source] best).
          \<exists>y. (\<lambda>(b, idx). bind (index (predictions results) b) (\<lambda>p. index p idx)) x = Inr y"
  proof
    fix x assume "x \<in> set (zip [0..<length source] best)"
    then obtain i where i: "i < length source" "x = (i, best ! i)"
      using b(2) by (auto simp: set_zip)
    then show "\<exists>y. (\<lambda>(b, idx). bind (index (predictions results) b) (\<lambda>p. index p idx)) x = Inr y"
      using bk[of i] r by (simp add: index_def)
  qed
  then obtain ts where "map_result (\<lambda>(b, idx). bind (index (predictions results) b)
        (\<lambda>p. index p idx)) (zip [0..<length source] best) = Inr ts"
      "length ts = length (zip [0..<length source] best)"
    using map_result_ok by blast
  then show ?thesis using r(1) b by (simp add: summarize_def)
qed

lemma write_summaries_append:
  "write_summaries d tok (xs @ ys) st = write_summaries d tok ys (write_summaries d tok xs st)"
  by (induction xs arbitrary: st) auto

lemma write_summaries_result:
  "write_summaries d tok ts st =
     \<lparr>idx_summary = idx_summary st + length ts,
      written = written st @
        map (\<lambda>i. (summary_path d (idx_summary st + i), summary_file_text (ts ! i) tok))
          [0..<length ts]\<rparr>"
proof (induction ts arbitrary: st)
  case Nil
  then show ?case by simp
next
  case (Cons t ts)
  have "[0..<length (t # ts)] = 0 # map Suc [0..<length ts]"
    by (simp add: upt_conv_Cons map_Suc_upt del: upt_Suc)
  then have "map (\<lambda>i. (summary_path d (idx_summary st + i), summary_file_text ((t # ts) ! i) tok))
           [0..<length (t # ts)] =
        (summary_path d (idx_summary st), summary_file_text t tok) #
        map (\<lambda>i. (summary_path d (idx_summary st + 1 + i), summary_file_text (ts ! i) tok))
           [0..<length ts]"
    by (simp add: o_def del: upt_Suc)
  then show ?case by (simp add: Cons.IH)
qed

lemma eval_batches_all_summaries:
  "eval_batches tok u beam d chunks st =
     bind (all_summaries tok u beam chunks) (\<lambda>toks. Inr (write_summaries d tok toks st))"
proof (induction chunks arbitrary: st)
  case Nil
  then show ?case by simp
next
  case (Cons c chunks)
  show ?case
  proof (cases "collate c tok u 512")
    case (Inl e)
    then show ?thesis by simp
  next
    case (Inr b)
    show ?thesis
    proof (cases "summarize beam (stories b) (encoder_token_type_ids b) (encoder_mask b)")
      case (Inl e)
      then show ?thesis using Inr by simp
    next
      case ts: (Inr ts)
      show ?thesis
        by (cases "all_summaries tok u beam chunks")
          (simp_all add: Inr ts Cons.IH write_summaries_append)
    qed
  qed
qed

lemma batches_of_Nil [simp]: "batches_of n [] = []"
  by (simp add: batches_of.simps)

lemma concat_batches_of:
  "0 < n \<Longrightarrow> concat (batches_of n xs) = xs"
proof (induction n xs rule: batches_of.induct)
  case (1 batch_size xs)
  show ?case
  proof (cases "xs = []")
    case True
    then show ?thesis by simp
  next
    case False
    then show ?thesis using 1 by (simp add: batches_of.simps[of batch_size xs])
  qed
qed

lemma all_summaries_ok:
  assumes "well_formed_beam beam"
  shows "\<exists>toks. all_summaries tok u beam chunks = Inr toks \<and>
           length toks = length (filter (\<lambda>x. \<not> has_empty_side x) (concat chunks))"
proof (induction chunks)
  case Nil
  then show ?case by simp
next
  case (Cons c chunks)
  obtain b where b: "collate c tok u 512 = Inr b"
      "length (stories b) = length c - length (filter has_empty_side c)"
    by (simp add: collate_result length_kept)
  obtain ts where ts: "summarize beam (stories b) (encoder_token_type_ids b) (encoder_mask b) = Inr ts"
      "length ts = length (stories b)"
    using summarize_ok[OF assms] by blast
  obtain more where m: "all_summaries tok u beam chunks = Inr more"
      "length more = length (filter (\<lambda>x. \<not> has_empty_side x) (concat chunks))"
    using Cons.IH by blast
  show ?case using b ts m by (simp add: length_kept)
qed

text \<open>
  The files of a run in general. On a machine with at least two CPUs, with a positive
  batch size and a beam search that keeps its contract, \<^verbatim>\<open>evaluate\<close> returns. The
  batches are the consecutive slices of the dataset, in its order. The summaries \<open>toks\<close>
  of the run are one per example that \<^verbatim>\<open>collate\<close> does not filter out, in that order,
  and the summary at position \<open>i\<close> of \<open>toks\<close> is written to \<^verbatim>\<open>model_i.txt\<close>.
\<close>

lemma evaluate_files_of_kept_examples:
  assumes "2 \<le> cpu_count"
    and "0 < per_gpu_eval_batch_size a * max 1 (n_gpu a)"
    and "well_formed_beam beam"
  shows "\<exists>st toks.
      evaluate a dataset tok u beam path_to_summaries cpu_count = Inr st \<and>
      concat (batches_of (nat (per_gpu_eval_batch_size a * max 1 (n_gpu a))) dataset) = dataset \<and>
      all_summaries tok u beam
        (batches_of (nat (per_gpu_eval_batch_size a * max 1 (n_gpu a))) dataset) = Inr toks \<and>
      length toks = length (filter (\<lambda>x. \<not> has_empty_side x) dataset) \<and>
      idx_summary st = length toks \<and>
      written st = map (\<lambda>i. (summary_path path_to_summaries i, summary_file_text (toks ! i) tok))
                     [0..<length toks] \<and>
      distinct (map fst (written st))"
proof -
  let ?n = "nat (per_gpu_eval_batch_size a * max 1 (n_gpu a))"
  have n: "0 < ?n" using assms(2) by simp
  have c: "concat (batches_of ?n dataset) = dataset" by (rule concat_batches_of[OF n])
  obtain toks where toks: "all_summaries tok u beam (batches_of ?n dataset) = Inr toks"
      "length toks = length (filter (\<lambda>x. \<not> has_empty_side x) dataset)"
    using all_summaries_ok[OF assms(3), of tok u "batches_of ?n dataset"] c by auto
  let ?st = "write_summaries path_to_summaries tok toks \<lparr>idx_summary = 0, written = []\<rparr>"
  have ev: "evaluate a dataset tok u beam path_to_summaries cpu_count = Inr ?st"
    using assms(1,2) toks(1)
    by (simp add: evaluate_def Let_def eval_batches_all_summaries)
  have w: "written ?st = map (\<lambda>i. (summary_path path_to_summaries i, summary_file_text (toks ! i) tok))
                     [0..<length toks]"
    and i: "idx_summary ?st = length toks"
    by (simp_all add: write_summaries_result)
  have "map fst (written ?st) = map (summary_path path_to_summaries) [0..<length toks]"
    unfolding w by (simp add: o_def)
  moreover have "inj_on (summary_path path_to_summaries) (set [0..<length toks])"
    by (rule inj_onI) (rule summary_path_inj)
  ultimately have "distinct (map fst (written ?st))"
    by (simp add: distinct_map)
  with ev c toks w i show ?thesis by blast
qed

lemma map_result_map:
  assumes "\<forall>x \<in> set xs. f x = Inr (g x)"
  shows "map_result f xs = Inr (map g xs)"
  using assms by (induction xs) auto

lemma summarize_copy_beam:
  "summarize copy_beam source tti am = Inr (map (filter (\<lambda>t. t \<noteq> 0)) source)"
proof -
  let ?n = "length source"
  have 1: "map_result (\<lambda>i. bind (index (map (\<lambda>row. [- 2, - 1::real]) source) i) best_index) [0..<?n] =
           Inr (map (\<lambda>i. 1::nat) [0..<?n])"
    by (rule map_result_map[where g = "\<lambda>i. 1"]) (simp add: index_def best_index_def)
  have z: "zip [0..<?n] (map (\<lambda>i. 1::nat) [0..<?n]) = map (\<lambda>i. (i, 1::nat)) [0..<?n]"
    by (simp add: zip_map2 zip_same_conv_map)
  have 2: "map_result (\<lambda>(b, idx). bind (index (map (\<lambda>row. [[9], filter (\<lambda>t. t \<noteq> 0) row]) source) b) (\<lambda>p. index p idx))
             (map (\<lambda>i. (i, 1::nat)) [0..<?n]) =
           Inr (map (\<lambda>x. filter (\<lambda>t. t \<noteq> 0) (source ! fst x))
                  (map (\<lambda>i. (i, 1::nat)) [0..<?n]))"
    by (rule map_result_map[where g = "\<lambda>x. filter (\<lambda>t. t \<noteq> 0) (source ! fst x)"])
      (auto simp: index_def)
  have 3: "map (\<lambda>x. filter (\<lambda>t. t \<noteq> 0) (source ! fst x)) (map (\<lambda>i. (i, 1::nat)) [0..<?n]) =
           map (filter (\<lambda>t. t \<noteq> 0)) source"
  proof -
    have "map (\<lambda>x. filter (\<lambda>t. t \<noteq> 0) (source ! fst x)) (map (\<lambda>i. (i, 1::nat)) [0..<?n]) =
          map (filter (\<lambda>t. t \<noteq> 0)) (map (\<lambda>i. source ! i) [0..<?n])"
      by (simp add: o_def)
    then show ?thesis by (simp only: map_nth)
  qed
  show ?thesis
    unfolding summarize_def Let_def copy_beam_def
    by (simp only: bind_Inr beam_results.select_convs 1 z 2 3)
qed

lemma well_formed_copy_beam: "well_formed_beam copy_beam"
  by (simp add: well_formed_beam_def copy_beam_def)

lemma filter_fit_to_block_size:
  "filter (\<lambda>t. t \<noteq> pad) (fit_to_block_size s n pad) = filter (\<lambda>t. t \<noteq> pad) (take n s)"
  by (simp add: fit_to_block_size_def)

lemma format_nat_digits:
  "format_nat 0 = ''0''" "format_nat (Suc 0) = ''1''" "format_nat (Suc (Suc 0)) = ''2''"
  by (simp_all add: format_nat.simps[of 0] format_nat.simps[of "Suc 0"]
      format_nat.simps[of "Suc (Suc 0)"] digit_char_def)

text \<open>The reference file of index \<open>i\<close> holds the summary of the example at position \<open>i\<close>.\<close>

lemma create_evaluation_set_by_position:
  assumes "i < length dataset"
  shows "create_evaluation_set dataset d ! i =
           (d @ ''/original_'' @ format_nat i @ ''.txt'', join [CHR 0x0A] (snd (dataset ! i)))"
  using assms by (simp add: create_evaluation_set_def nth_enumerate_eq case_prod_beta)

lemma length_create_evaluation_set:
  "length (create_evaluation_set dataset d) = length dataset"
  by (simp add: create_evaluation_set_def)

lemma batches_of_three: "batches_of 2 [x0, x1, x2] = [[x0, x1], [x2]]"
  by (simp add: batches_of.simps[of 2 "[x0, x1, x2]"] batches_of.simps[of 2 "[x2]"])

lemma summarize_single_row:
  assumes "well_formed_beam beam"
  shows "\<exists>t. summarize beam [row] tti am = Inr [t]"
  using summarize_ok[OF assms, of "[row]" tti am] by (auto simp: length_Suc_conv)

text \<open>
  C8. \<^verbatim>\<open>collate\<close> drops an example with an empty side inside its batch, and
  \<^verbatim>\<open>idx_summary\<close> counts the summaries that come back; so the index of a file lags
  behind the position of its example from the first dropped example on. In a dataset of
  three examples whose second one has an empty side, evaluated in batches of two: the
  third example is alone in its batch, the summary \<open>t2\<close> that \<^verbatim>\<open>summarize\<close> returns for
  it is written to \<^verbatim>\<open>model_1.txt\<close>, and only two files are written, none of them
  \<^verbatim>\<open>model_2.txt\<close>. \<^verbatim>\<open>create_evaluation_set\<close> drops nothing: it writes three
  reference files, and \<^verbatim>\<open>original_1.txt\<close> holds the summary of the second example,
  \<^verbatim>\<open>original_2.txt\<close> that of the third.
\<close>

theorem evaluate_index_lags_behind_position:
  assumes "2 \<le> cpu_count"
    and "per_gpu_eval_batch_size a * max 1 (n_gpu a) = 2"
    and "well_formed_beam beam"
    and "\<not> has_empty_side x0" and "has_empty_side x1" and "\<not> has_empty_side x2"
  shows "\<exists>t0 t2.
      summarize beam [fst (fitted tok 512 x0)]
        (compute_token_type_ids u [fst (fitted tok 512 x0)] (cls_token_id tok))
        (build_mask [fst (fitted tok 512 x0)] (pad_token_id tok)) = Inr [t0] \<and>
      summarize beam [fst (fitted tok 512 x2)]
        (compute_token_type_ids u [fst (fitted tok 512 x2)] (cls_token_id tok))
        (build_mask [fst (fitted tok 512 x2)] (pad_token_id tok)) = Inr [t2] \<and>
      evaluate a [x0, x1, x2] tok u beam path_to_summaries cpu_count =
        Inr \<lparr>idx_summary = 2,
             written = [(summary_path path_to_summaries 0, summary_file_text t0 tok),
                        (summary_path path_to_summaries 1, summary_file_text t2 tok)]\<rparr> \<and>
      create_evaluation_set [x0, x1, x2] path_to_references =
        [(path_to_references @ ''/original_0.txt'', join [CHR 0x0A] (snd x0)),
         (path_to_references @ ''/original_1.txt'', join [CHR 0x0A] (snd x1)),
         (path_to_references @ ''/original_2.txt'', join [CHR 0x0A] (snd x2))]"
proof -
  have refs: "create_evaluation_set [x0, x1, x2] path_to_references =
        [(path_to_references @ ''/original_0.txt'', join [CHR 0x0A] (snd x0)),
         (path_to_references @ ''/original_1.txt'', join [CHR 0x0A] (snd x1)),
         (path_to_references @ ''/original_2.txt'', join [CHR 0x0A] (snd x2))]"
    by (simp add: create_evaluation_set_def enumerate_simps format_nat_digits case_prod_beta)
  obtain t0 where t0: "summarize beam [fst (fitted tok 512 x0)]
        (compute_token_type_ids u [fst (fitted tok 512 x0)] (cls_token_id tok))
        (build_mask [fst (fitted tok 512 x0)] (pad_token_id tok)) = Inr [t0]"
    using summarize_single_row[OF assms(3)] by blast
  obtain t2 where t2: "summarize beam [fst (fitted tok 512 x2)]
        (compute_token_type_ids u [fst (fitted tok 512 x2)] (cls_token_id tok))
        (build_mask [fst (fitted tok 512 x2)] (pad_token_id tok)) = Inr [t2]"
    using summarize_single_row[OF assms(3)] by blast
  have "evaluate a [x0, x1, x2] tok u beam path_to_summaries cpu_count =
          eval_batches tok u beam path_to_summaries [[x0, x1], [x2]]
            \<lparr>idx_summary = 0, written = []\<rparr>"
    using assms(1,2) by (simp add: evaluate_def batches_of_three)
  also have "\<dots> = Inr \<lparr>idx_summary = 2,
             written = [(summary_path path_to_summaries 0, summary_file_text t0 tok),
                        (summary_path path_to_summaries 1, summary_file_text t2 tok)]\<rparr>"
    using assms(4-6) t0 t2 by (simp add: collate_result)
  finally show ?thesis using t0 t2 refs by blast
qed

theorem evaluate_index_lags_behind_position_witness:
  "(2::int) \<le> 4 \<and>
   per_gpu_eval_batch_size (default_args\<lparr>per_gpu_eval_batch_size := 2\<rparr>)
     * max 1 (n_gpu (default_args\<lparr>per_gpu_eval_batch_size := 2\<rparr>)) = 2 \<and>
   well_formed_beam copy_beam \<and>
   \<not> has_empty_side ([''a.b''], [''c'']) \<and> has_empty_side ([''b''], []) \<and>
   \<not> has_empty_side ([''c.''], [''a'']) \<and>
   evaluate (default_args\<lparr>per_gpu_eval_batch_size := 2\<rparr>)
       [([''a.b''], [''c'']), ([''b''], []), ([''c.''], [''a''])]
       char_tokenizer char_utils copy_beam ''out'' 4 =
     Inr \<lparr>idx_summary = 2,
          written = [(''out/model_0.txt'', ''a.\<newline>b.''),
                     (''out/model_1.txt'', ''c.\<newline>.'')]\<rparr> \<and>
   create_evaluation_set [([''a.b''], [''c'']), ([''b''], []), ([''c.''], [''a''])] ''ref'' =
     [(''ref/original_0.txt'', ''c''), (''ref/original_1.txt'', []),
      (''ref/original_2.txt'', ''a'')]"
proof -
  let ?a = "default_args\<lparr>per_gpu_eval_batch_size := 2\<rparr>"
  have h1: "(2::int) \<le> 4" by simp
  have h2: "per_gpu_eval_batch_size ?a * max 1 (n_gpu ?a) = 2" by (simp add: default_args_def)
  have h4: "\<not> has_empty_side ([''a.b''], [''c''])" "has_empty_side ([''b''], [])"
      "\<not> has_empty_side ([''c.''], [''a''])"
    by (simp_all add: has_empty_side_def)
  have f0: "filter (\<lambda>t. t \<noteq> 0) (fst (fitted char_tokenizer 512 ([''a.b''], [''c'']))) =
              [101, 1, 4, 2, 102]"
    and f2: "filter (\<lambda>t. t \<noteq> 0) (fst (fitted char_tokenizer 512 ([''c.''], [''a'']))) =
              [101, 3, 4, 102]"
    by (simp_all add: fitted_def char_tokenizer_def filter_fit_to_block_size
        encode_for_summarization_def encode_lines_def token_of_char_def)
  obtain t0 t2 where r:
      "summarize copy_beam [fst (fitted char_tokenizer 512 ([''a.b''], [''c'']))]
        (compute_token_type_ids char_utils [fst (fitted char_tokenizer 512 ([''a.b''], [''c'']))]
           (cls_token_id char_tokenizer))
        (build_mask [fst (fitted char_tokenizer 512 ([''a.b''], [''c'']))]
           (pad_token_id char_tokenizer)) = Inr [t0]"
      "summarize copy_beam [fst (fitted char_tokenizer 512 ([''c.''], [''a'']))]
        (compute_token_type_ids char_utils [fst (fitted char_tokenizer 512 ([''c.''], [''a'']))]
           (cls_token_id char_tokenizer))
        (build_mask [fst (fitted char_tokenizer 512 ([''c.''], [''a'']))]
           (pad_token_id char_tokenizer)) = Inr [t2]"
      "evaluate ?a [([''a.b''], [''c'']), ([''b''], []), ([''c.''], [''a''])]
         char_tokenizer char_utils copy_beam ''out'' 4 =
        Inr \<lparr>idx_summary = 2,
             written = [(summary_path ''out'' 0, summary_file_text t0 char_tokenizer),
                        (summary_path ''out'' 1, summary_file_text t2 char_tokenizer)]\<rparr>"
      "create_evaluation_set [([''a.b''], [''c'']), ([''b''], []), ([''c.''], [''a''])] ''ref'' =
         [(''ref'' @ ''/original_0.txt'', join [CHR 0x0A] (snd ([''a.b''], [''c'']))),
          (''ref'' @ ''/original_1.txt'', join [CHR 0x0A] (snd ([''b''], []))),
          (''ref'' @ ''/original_2.txt'', join [CHR 0x0A] (snd ([''c.''], [''a''])))]"
    using evaluate_index_lags_behind_position[OF h1 h2 well_formed_copy_beam h4,
        of char_tokenizer char_utils "''out''" "''ref''"]
    by blast
  have t: "t0 = [101, 1, 4, 2, 102]" "t2 = [101, 3, 4, 102]"
    using r(1,2) by (simp_all add: summarize_copy_beam f0 f2)
  have w: "summary_path ''out'' 0 = ''out/model_0.txt''"
      "summary_path ''out'' 1 = ''out/model_1.txt''"
      "summary_file_text [101, 1, 4, 2, 102] char_tokenizer = ''a.\<newline>b.''"
      "summary_file_text [101, 3, 4, 102] char_tokenizer = ''c.\<newline>.''"
    by (simp_all add: summary_path_def path_join_def format_nat_digits summary_file_text_def
        decode_summary_def char_tokenizer_def char_of_token_def)
  have refs: "create_evaluation_set [([''a.b''], [''c'']), ([''b''], []), ([''c.''], [''a''])]
        ''ref'' =
     [(''ref/original_0.txt'', ''c''), (''ref/original_1.txt'', []),
      (''ref/original_2.txt'', ''a'')]"
    using r(4) by simp
  from r(3) h1 h2 h4 well_formed_copy_beam refs show ?thesis
    by (simp only: t w) simp
qed

end
